theory Spec2Isabelle
  imports Main "HOL-Library.Multiset" "HOL-Library.Sublist"
begin

section \<open>Structure Aggregator (codeAnalyzer.ts, buildCodeStructureMap)\<close>

text \<open>
  The TypeScript interface FileContent. Line and byte counts are natural numbers: the
  analyzer fills them with \<^verbatim>\<open>content.split('\n').length\<close> and \<^verbatim>\<open>content.length\<close>.
\<close>

record FileContent =
  fc_path :: string
  fc_content :: string
  fc_size :: nat
  fc_lines :: nat
  fc_extension :: string

datatype complexity = Low | Medium | High | unknown

record ext_stats =
  ext_count :: nat
  ext_totalLines :: nat

record largest_file =
  lf_path :: string
  lf_lines :: nat
  lf_size :: nat

record CodeStructure =
  totalFiles :: nat
  totalLines :: nat
  totalSize :: nat
  filesByExtension :: "(string \<times> ext_stats) list"
  largestFiles :: "largest_file list"
  complexity :: complexity

text \<open>
  \<^verbatim>\<open>fileContents.reduce((sum, file) => sum + file.lines, 0)\<close>: a left fold from 0.
\<close>

definition sumLines :: "FileContent list \<Rightarrow> nat" where
  "sumLines fileContents = foldl (\<lambda>sum file. sum + fc_lines file) 0 fileContents"

definition sumSize :: "FileContent list \<Rightarrow> nat" where
  "sumSize fileContents = foldl (\<lambda>sum file. sum + fc_size file) 0 fileContents"

text \<open>
  One pass of the grouping loop. The object \<^verbatim>\<open>filesByExtension\<close> is the association
  list of its own properties in the order of their creation; a missing key is created
  with zero counters and then both counters are bumped. For a key that names a property
  which every object inherits, the test \<^verbatim>\<open>!filesByExtension[ext]\<close> finds the inherited
  value, no own property is created, and the counters are bumped on that inherited
  value instead: the object keeps its entries as they were.
\<close>

definition inheritedKeys :: "string list" where
  "inheritedKeys =
     [''constructor'', ''__defineGetter__'', ''__defineSetter__'', ''hasOwnProperty'',
      ''__lookupGetter__'', ''__lookupSetter__'', ''isPrototypeOf'', ''propertyIsEnumerable'',
      ''toString'', ''valueOf'', ''__proto__'', ''toLocaleString'']"

definition groupByExtension ::
  "(string \<times> ext_stats) list \<Rightarrow> FileContent \<Rightarrow> (string \<times> ext_stats) list" where
  "groupByExtension m file =
     (let ext = (if fc_extension file = [] then ''no-extension'' else fc_extension file)
      in if ext \<in> set inheritedKeys then m
         else (let m1 = (case map_of m ext of
                           None \<Rightarrow> m @ [(ext, \<lparr>ext_count = 0, ext_totalLines = 0\<rparr>)]
                         | Some _ \<Rightarrow> m)
               in map (\<lambda>(k, v). if k = ext
                         then (k, \<lparr>ext_count = ext_count v + 1,
                                   ext_totalLines = ext_totalLines v + fc_lines file\<rparr>)
                         else (k, v)) m1))"

text \<open>
  \<^verbatim>\<open>fileContents.sort((a, b) => b.lines - a.lines)\<close> sorts the array it is called on, in
  place, and returns it. The sort is stable (ECMAScript 2019), descending by line count:
  \<open>sort_key\<close> is the stable insertion sort of the library, taken on the negated count.
\<close>

definition sortByLinesDesc :: "FileContent list \<Rightarrow> FileContent list" where
  "sortByLinesDesc fileContents = sort_key (\<lambda>file. - int (fc_lines file)) fileContents"

definition classify :: "nat \<Rightarrow> complexity" where
  "classify n =
     (if n > 5000 then High
      else if n > 1000 then Medium
      else Low)"

text \<open>
  The function returns the summary; the second component is the caller's array after
  the call, which the in-place sort has reordered.
\<close>

definition buildCodeStructureMap :: "FileContent list \<Rightarrow> CodeStructure \<times> FileContent list" where
  "buildCodeStructureMap fileContents =
     (let structure0 = \<lparr> totalFiles = length fileContents,
                          totalLines = sumLines fileContents,
                          totalSize = sumSize fileContents,
                          filesByExtension = [],
                          largestFiles = [],
                          complexity = unknown \<rparr>;
          structure1 = structure0 \<lparr> filesByExtension :=
                          foldl groupByExtension (filesByExtension structure0) fileContents \<rparr>;
          sorted = sortByLinesDesc fileContents;
          structure2 = structure1 \<lparr> largestFiles :=
                          map (\<lambda>file. \<lparr> lf_path = fc_path file, lf_lines = fc_lines file,
                                         lf_size = fc_size file \<rparr>) (take 5 sorted) \<rparr>;
          structure3 = structure2 \<lparr> complexity := classify (totalLines structure2) \<rparr>
      in (structure3, sorted))"

text \<open>A file record with a given number of lines: that many lines, all empty.\<close>

definition blankFile :: "string \<Rightarrow> nat \<Rightarrow> FileContent" where
  "blankFile p n = \<lparr> fc_path = p, fc_content = replicate (n - 1) (CHR 0x0A), fc_size = n - 1,
                     fc_lines = n, fc_extension = ''.ts'' \<rparr>"

section \<open>File system and paths\<close>

text \<open>
  The file system the program reads is a tree. A directory lists its entries in the
  order \<^verbatim>\<open>readdirSync\<close> returns them. The other constructors are the cases in which
  a call of the \<^verbatim>\<open>fs\<close> module throws or answers neither file nor directory:
  \<open>UnreadableFile\<close> is a regular file on which \<^verbatim>\<open>readFileSync\<close> throws,
  \<open>UnreadableDir\<close> a directory on which \<^verbatim>\<open>readdirSync\<close> throws, \<open>Special\<close> an
  entry that is neither (a socket, a device), and \<open>Broken\<close> a listed entry on which
  \<^verbatim>\<open>statSync\<close> throws (a dangling link).
\<close>

datatype fsnode =
    File string
  | UnreadableFile
  | Dir "(string \<times> fsnode) list"
  | UnreadableDir
  | Special
  | Broken

record fs_world =
  fsroot :: fsnode
  cwd :: "string list"

text \<open>
  An absolute, normalised POSIX path is the list of its segments; the empty list is the
  file system root \<^verbatim>\<open>/\<close>.
\<close>

fun lookupNode :: "fsnode \<Rightarrow> string list \<Rightarrow> fsnode option"
and lookupItems :: "(string \<times> fsnode) list \<Rightarrow> string \<Rightarrow> string list \<Rightarrow> fsnode option" where
  "lookupNode n [] = (case n of Broken \<Rightarrow> None | _ \<Rightarrow> Some n)"
| "lookupNode (Dir items) (s # ss) = lookupItems items s ss"
| "lookupNode _ (s # ss) = None"
| "lookupItems [] s ss = None"
| "lookupItems ((k, n) # rest) s ss = (if k = s then lookupNode n ss else lookupItems rest s ss)"

text \<open>\<^verbatim>\<open>String.prototype.split\<close> on a one-character separator.\<close>

fun splitOn :: "char \<Rightarrow> string \<Rightarrow> string list" where
  "splitOn c [] = [[]]"
| "splitOn c (x # xs) =
     (if x = c then [] # splitOn c xs
      else (case splitOn c xs of [] \<Rightarrow> [[x]] | w # ws \<Rightarrow> (x # w) # ws))"

text \<open>\<^verbatim>\<open>Array.prototype.join\<close>.\<close>

fun joinWith :: "string \<Rightarrow> string list \<Rightarrow> string" where
  "joinWith sep [] = []"
| "joinWith sep [x] = x"
| "joinWith sep (x # y # ys) = x @ sep @ joinWith sep (y # ys)"

text \<open>
  \<^verbatim>\<open>path.resolve\<close> (POSIX): a relative path is taken from the working directory; empty
  and \<^verbatim>\<open>.\<close> segments vanish, \<^verbatim>\<open>..\<close> removes the segment before it and stays at the
  root there.
\<close>

definition normalizeStep :: "string list \<Rightarrow> string \<Rightarrow> string list" where
  "normalizeStep acc seg =
     (if seg = [] \<or> seg = ''.'' then acc
      else if seg = ''..'' then butlast acc
      else acc @ [seg])"

definition path_resolve :: "fs_world \<Rightarrow> string \<Rightarrow> string list" where
  "path_resolve w p =
     foldl normalizeStep []
       (if p \<noteq> [] \<and> hd p = CHR ''/'' then splitOn (CHR ''/'') p
        else cwd w @ splitOn (CHR ''/'') p)"

text \<open>The string of a resolved path.\<close>

definition render :: "string list \<Rightarrow> string" where
  "render segs = ''/'' @ joinWith ''/'' segs"

text \<open>
  On resolved paths, \<^verbatim>\<open>path.parse(p).root\<close> is the empty segment list,
  \<^verbatim>\<open>path.join(dir, name)\<close> appends one segment and \<^verbatim>\<open>path.dirname\<close> removes the last
  one (the root is its own parent).
\<close>

definition rootPath :: "string list" where
  "rootPath = []"

definition path_join :: "string list \<Rightarrow> string \<Rightarrow> string list" where
  "path_join dir name = dir @ [name]"

definition path_dirname :: "string list \<Rightarrow> string list" where
  "path_dirname p = butlast p"

definition existsSync :: "fs_world \<Rightarrow> string list \<Rightarrow> bool" where
  "existsSync w p = (lookupNode (fsroot w) p \<noteq> None)"

section \<open>Path Resolver (fileSystem.ts, findRepositoryRoot)\<close>

definition repositoryMarkers :: "string list" where
  "repositoryMarkers =
     [''.git'', ''package.json'', ''pyproject.toml'', ''Cargo.toml'', ''pom.xml'',
      ''build.gradle'', ''go.mod'', ''composer.json'', ''Gemfile'', ''.gitignore'',
      ''README.md'']"

text \<open>The inner \<^verbatim>\<open>for\<close> loop: some marker exists in the directory.\<close>

definition hasMarker :: "fs_world \<Rightarrow> string list \<Rightarrow> bool" where
  "hasMarker w currentPath =
     list_ex (\<lambda>marker. existsSync w (path_join currentPath marker)) repositoryMarkers"

text \<open>
  The \<^verbatim>\<open>while (currentPath !== rootPath)\<close> loop. \<open>None\<close> is leaving the loop without
  a \<^verbatim>\<open>return\<close>.
\<close>

function walkUp :: "fs_world \<Rightarrow> string list \<Rightarrow> string list option" where
  "walkUp w currentPath =
     (if currentPath = rootPath then None
      else if hasMarker w currentPath then Some currentPath
      else (let parentPath = path_dirname currentPath
            in if parentPath = currentPath then None else walkUp w parentPath))"
  by pat_completeness auto
termination
  by (relation "measure (\<lambda>(w, p). length p)") (auto simp: rootPath_def path_dirname_def)

declare walkUp.simps [simp del]

definition findRepositoryRoot :: "fs_world \<Rightarrow> string \<Rightarrow> string" where
  "findRepositoryRoot w startPath =
     (case walkUp w (path_resolve w startPath) of
        Some currentPath \<Rightarrow> render currentPath
      | None \<Rightarrow> startPath)"

text \<open>Example worlds.\<close>

definition world_repo :: fs_world where
  "world_repo =
     \<lparr> fsroot = Dir [(''repo'', Dir [(''.git'', Dir []),
                                      (''src'', Dir [(''a.ts'', File ''let a = 1'')])])],
       cwd = [''repo''] \<rparr>"

definition world_plain :: fs_world where
  "world_plain = \<lparr> fsroot = Dir [(''tmp'', Dir [(''x'', Dir [])])], cwd = [''tmp''] \<rparr>"

definition world_git_at_root :: fs_world where
  "world_git_at_root = \<lparr> fsroot = Dir [(''.git'', Dir []), (''work'', Dir [])], cwd = [] \<rparr>"

section \<open>Strings and regular expressions\<close>

text \<open>
  Texts are \<open>string\<close>s. The program's inputs are taken as ASCII text, one \<open>char\<close> per
  character; the emoji of the program's own report literals are written as their UTF-8
  bytes, which changes no test the program makes on them.
\<close>

fun startsWith :: "string \<Rightarrow> string \<Rightarrow> bool" where
  "startsWith s [] = True"
| "startsWith [] (p # ps) = False"
| "startsWith (x # xs) (p # ps) = (x = p \<and> startsWith xs ps)"

definition endsWith :: "string \<Rightarrow> string \<Rightarrow> bool" where
  "endsWith s p = startsWith (rev s) (rev p)"

fun includesStr :: "string \<Rightarrow> string \<Rightarrow> bool" where
  "includesStr [] p = (p = [])"
| "includesStr (x # xs) p = (startsWith (x # xs) p \<or> includesStr xs p)"

definition lowerLetters :: string where
  "lowerLetters = ''abcdefghijklmnopqrstuvwxyz''"

definition upperLetters :: string where
  "upperLetters = ''ABCDEFGHIJKLMNOPQRSTUVWXYZ''"

definition digitChars :: string where
  "digitChars = ''0123456789''"

definition toLowerChar :: "char \<Rightarrow> char" where
  "toLowerChar c = (case map_of (zip upperLetters lowerLetters) c of Some l \<Rightarrow> l | None \<Rightarrow> c)"

definition toUpperChar :: "char \<Rightarrow> char" where
  "toUpperChar c = (case map_of (zip lowerLetters upperLetters) c of Some u \<Rightarrow> u | None \<Rightarrow> c)"

definition toLowerCase :: "string \<Rightarrow> string" where
  "toLowerCase s = map toLowerChar s"

text \<open>The white space of \<^verbatim>\<open>\s\<close> and of \<^verbatim>\<open>trim\<close>, and the word characters of \<^verbatim>\<open>\w\<close>.\<close>

definition isSpace :: "char \<Rightarrow> bool" where
  "isSpace c = (c \<in> set [CHR 0x09, CHR 0x0A, CHR 0x0B, CHR 0x0C, CHR 0x0D, CHR '' ''])"

definition isWordChar :: "char \<Rightarrow> bool" where
  "isWordChar c =
     (c \<in> set lowerLetters \<or> c \<in> set upperLetters \<or> c \<in> set digitChars \<or> c = CHR ''_'')"

definition isLineTerminator :: "char \<Rightarrow> bool" where
  "isLineTerminator c = (c = CHR 0x0A \<or> c = CHR 0x0D)"

definition trim :: "string \<Rightarrow> string" where
  "trim s = rev (dropWhile isSpace (rev (dropWhile isSpace s)))"

text \<open>
  The regular expressions of the program, as syntax trees. A character class is a
  literal, the dot, or a bracket expression (negated or not) of characters, the ranges
  \<^verbatim>\<open>a-z\<close>, \<^verbatim>\<open>A-Z\<close>, \<^verbatim>\<open>0-9\<close> and the escapes \<^verbatim>\<open>\s\<close>, \<^verbatim>\<open>\S\<close>, \<^verbatim>\<open>\w\<close>. \<open>Star\<close> is the greedy and \<open>LazyStar\<close> the
  reluctant star, \<open>Cap k\<close> the k-th capturing group, \<open>Bol\<close>, \<open>Eol\<close> and \<open>WordB\<close> the
  assertions \<^verbatim>\<open>^\<close>, \<^verbatim>\<open>$\<close> and \<^verbatim>\<open>\b\<close>.
\<close>

datatype citem = C char | LowerC | UpperC | DigitC | SpaceC | NonSpaceC | WordC

datatype cclass = Lit char | Dot | Cls bool "citem list"

datatype rx =
    Eps
  | Atom cclass
  | Seq rx rx
  | Alt rx rx
  | Star rx
  | LazyStar rx
  | Cap nat rx
  | Bol
  | Eol
  | WordB

record flags =
  ignoreCase :: bool
  multiline :: bool

text \<open>
  A matcher state: the character before the current position (none at the start of the
  input), the input still to read, and the captures made so far.
\<close>

record mstate =
  prevChar :: "char option"
  remaining :: string
  captures :: "(nat \<times> string) list"

text \<open>
  With the flag \<^verbatim>\<open>i\<close> two characters are the same when their upper-case forms are.
\<close>

fun citemMatch :: "bool \<Rightarrow> citem \<Rightarrow> char \<Rightarrow> bool" where
  "citemMatch ic (C a) c = (if ic then toUpperChar a = toUpperChar c else a = c)"
| "citemMatch ic LowerC c = (c \<in> set lowerLetters \<or> (ic \<and> c \<in> set upperLetters))"
| "citemMatch ic UpperC c = (c \<in> set upperLetters \<or> (ic \<and> c \<in> set lowerLetters))"
| "citemMatch ic DigitC c = (c \<in> set digitChars)"
| "citemMatch ic SpaceC c = isSpace c"
| "citemMatch ic NonSpaceC c = (\<not> isSpace c)"
| "citemMatch ic WordC c = isWordChar c"

fun cmatch :: "flags \<Rightarrow> cclass \<Rightarrow> char \<Rightarrow> bool" where
  "cmatch f (Lit a) c = citemMatch (ignoreCase f) (C a) c"
| "cmatch f Dot c = (\<not> isLineTerminator c)"
| "cmatch f (Cls neg items) c = (list_ex (\<lambda>i. citemMatch (ignoreCase f) i c) items \<noteq> neg)"

definition atBol :: "flags \<Rightarrow> mstate \<Rightarrow> bool" where
  "atBol f st = (case prevChar st of None \<Rightarrow> True | Some p \<Rightarrow> multiline f \<and> isLineTerminator p)"

definition atEol :: "flags \<Rightarrow> mstate \<Rightarrow> bool" where
  "atEol f st = (case remaining st of [] \<Rightarrow> True | x # xs \<Rightarrow> multiline f \<and> isLineTerminator x)"

definition atWordB :: "mstate \<Rightarrow> bool" where
  "atWordB st =
     ((case prevChar st of None \<Rightarrow> False | Some p \<Rightarrow> isWordChar p) \<noteq>
      (case remaining st of [] \<Rightarrow> False | x # xs \<Rightarrow> isWordChar x))"

text \<open>
  The backtracking matcher: all the ways in which the expression matches at the current
  position, in the order in which a backtracking engine tries them. The head of the list
  is the match the engine reports. A star does not repeat an iteration that read nothing.
\<close>

function rmatch :: "flags \<Rightarrow> rx \<Rightarrow> mstate \<Rightarrow> mstate list" where
  "rmatch f Eps st = [st]"
| "rmatch f (Atom cl) st =
     (case remaining st of
        [] \<Rightarrow> []
      | x # xs \<Rightarrow> if cmatch f cl x then [st\<lparr>prevChar := Some x, remaining := xs\<rparr>] else [])"
| "rmatch f (Seq a b) st = concat (map (rmatch f b) (rmatch f a st))"
| "rmatch f (Alt a b) st = rmatch f a st @ rmatch f b st"
| "rmatch f (Star a) st =
     concat (map (\<lambda>st'. if length (remaining st') < length (remaining st)
                          then rmatch f (Star a) st' else [])
                 (rmatch f a st)) @ [st]"
| "rmatch f (LazyStar a) st =
     st # concat (map (\<lambda>st'. if length (remaining st') < length (remaining st)
                               then rmatch f (LazyStar a) st' else [])
                      (rmatch f a st))"
| "rmatch f (Cap k a) st =
     map (\<lambda>st'. st'\<lparr>captures := (k, take (length (remaining st) - length (remaining st')) (remaining st))
                                 # captures st'\<rparr>)
         (rmatch f a st)"
| "rmatch f Bol st = (if atBol f st then [st] else [])"
| "rmatch f Eol st = (if atEol f st then [st] else [])"
| "rmatch f WordB st = (if atWordB st then [st] else [])"
  by pat_completeness auto
termination
  by (relation "measures [\<lambda>(f, r, st). size r, \<lambda>(f, r, st). length (remaining st)]") auto

text \<open>
  A match result: the matched text, the captures, and where the match ended.
\<close>

record rmatched =
  matched :: string
  groups :: "(nat \<times> string) list"
  endState :: mstate

definition matchHere :: "flags \<Rightarrow> rx \<Rightarrow> char option \<Rightarrow> string \<Rightarrow> rmatched option" where
  "matchHere f r p s =
     (case rmatch f r \<lparr> prevChar = p, remaining = s, captures = [] \<rparr> of
        [] \<Rightarrow> None
      | st # _ \<Rightarrow> Some \<lparr> matched = take (length s - length (remaining st)) s,
                          groups = captures st, endState = st \<rparr>)"

text \<open>The leftmost match at or after the current position.\<close>

fun searchFrom :: "flags \<Rightarrow> rx \<Rightarrow> char option \<Rightarrow> string \<Rightarrow> rmatched option" where
  "searchFrom f r p [] = matchHere f r p []"
| "searchFrom f r p (x # xs) =
     (case matchHere f r p (x # xs) of
        Some m \<Rightarrow> Some m
      | None \<Rightarrow> searchFrom f r (Some x) xs)"

text \<open>\<^verbatim>\<open>regex.test(s)\<close> and \<^verbatim>\<open>s.match(regex)\<close> without the flag \<^verbatim>\<open>g\<close>.\<close>

definition regexTest :: "flags \<Rightarrow> rx \<Rightarrow> string \<Rightarrow> bool" where
  "regexTest f r s = (searchFrom f r None s \<noteq> None)"

definition matchFirst :: "flags \<Rightarrow> rx \<Rightarrow> string \<Rightarrow> rmatched option" where
  "matchFirst f r s = searchFrom f r None s"

text \<open>
  A capture of a match; a group that took no part in the match is \<^verbatim>\<open>undefined\<close>, which
  the program only ever uses where the empty string behaves alike (both are falsy).
\<close>

definition group :: "nat \<Rightarrow> rmatched \<Rightarrow> string" where
  "group k m = (case map_of (groups m) k of None \<Rightarrow> [] | Some s \<Rightarrow> s)"

text \<open>
  \<^verbatim>\<open>s.match(regex)\<close> with the flag \<^verbatim>\<open>g\<close>: the texts of all matches, left to right, each
  search starting where the last match ended (one character further after an empty
  match). No match at all is \<^verbatim>\<open>null\<close>, which every caller replaces by the empty array.
\<close>

function matchGlobalFrom :: "flags \<Rightarrow> rx \<Rightarrow> char option \<Rightarrow> string \<Rightarrow> string list" where
  "matchGlobalFrom f r p s =
     (case matchHere f r p s of
        None \<Rightarrow> (case s of [] \<Rightarrow> [] | x # xs \<Rightarrow> matchGlobalFrom f r (Some x) xs)
      | Some m \<Rightarrow>
          if length (remaining (endState m)) < length s
          then matched m # matchGlobalFrom f r (prevChar (endState m)) (remaining (endState m))
          else (case s of [] \<Rightarrow> [matched m]
                | x # xs \<Rightarrow> matched m # matchGlobalFrom f r (Some x) xs))"
  by pat_completeness auto
termination
  by (relation "measure (\<lambda>(f, r, p, s). length s)") auto

declare matchGlobalFrom.simps [simp del]

definition matchGlobal :: "flags \<Rightarrow> rx \<Rightarrow> string \<Rightarrow> string list" where
  "matchGlobal f r s = matchGlobalFrom f r None s"

text \<open>Building blocks for writing the program's expressions.\<close>

definition rxStr :: "string \<Rightarrow> rx" where
  "rxStr s = foldr (\<lambda>c r. Seq (Atom (Lit c)) r) s Eps"

definition rxPlus :: "rx \<Rightarrow> rx" where
  "rxPlus r = Seq r (Star r)"

definition rxOpt :: "rx \<Rightarrow> rx" where
  "rxOpt r = Alt r Eps"

fun rxSeq :: "rx list \<Rightarrow> rx" where
  "rxSeq [] = Eps"
| "rxSeq [r] = r"
| "rxSeq (r # rs) = Seq r (rxSeq rs)"

fun rxAlt :: "rx list \<Rightarrow> rx" where
  "rxAlt [] = Eps"
| "rxAlt [r] = r"
| "rxAlt (r # rs) = Alt r (rxAlt rs)"

definition rxSet :: "string \<Rightarrow> rx" where
  "rxSet cs = Atom (Cls False (map C cs))"

definition rxNotSet :: "string \<Rightarrow> rx" where
  "rxNotSet cs = Atom (Cls True (map C cs))"

definition ws :: rx where
  "ws = Atom (Cls False [SpaceC])"

definition nonws :: rx where
  "nonws = Atom (Cls False [NonSpaceC])"

definition wordc :: rx where
  "wordc = Atom (Cls False [WordC])"

definition anychar :: rx where
  "anychar = Atom (Cls False [SpaceC, NonSpaceC])"

definition plainFlags :: flags where
  "plainFlags = \<lparr> ignoreCase = False, multiline = False \<rparr>"

definition iFlags :: flags where
  "iFlags = \<lparr> ignoreCase = True, multiline = False \<rparr>"

definition mFlags :: flags where
  "mFlags = \<lparr> ignoreCase = False, multiline = True \<rparr>"

text \<open>The three quote characters \<^verbatim>\<open>' " `\<close>, and the two \<^verbatim>\<open>' "\<close>.\<close>

definition quotes3 :: string where
  "quotes3 = [CHR 0x27, CHR 0x22, CHR 0x60]"

definition quotes2 :: string where
  "quotes2 = [CHR 0x27, CHR 0x22]"

section \<open>Heuristic Code Analyzer: dependency extraction (codeAnalyzer.ts, extractImports)\<close>

text \<open>Identifiers \<^verbatim>\<open>[a-zA-Z_][a-zA-Z0-9_]*\<close>.\<close>

definition ident :: rx where
  "ident =
     Seq (Atom (Cls False [LowerC, UpperC, C (CHR ''_'')]))
         (Star (Atom (Cls False [LowerC, UpperC,
                                  DigitC, C (CHR ''_'')])))"

text \<open>JavaScript and TypeScript.\<close>

definition rx_es_import :: rx where
  "rx_es_import =
     rxSeq [rxStr ''import'', rxPlus ws, LazyStar (Atom Dot), rxPlus ws, rxStr ''from'',
            rxPlus ws, rxSet quotes3, Cap 1 (rxPlus (rxNotSet quotes3)), rxSet quotes3]"

definition rx_es_from :: rx where
  "rx_es_from =
     rxSeq [rxStr ''from'', rxPlus ws, rxSet quotes3, Cap 1 (rxPlus (rxNotSet quotes3)),
            rxSet quotes3]"

definition rx_es_require :: rx where
  "rx_es_require =
     rxSeq [rxStr ''require('', rxSet quotes3, Cap 1 (rxPlus (rxNotSet quotes3)),
            rxSet quotes3, rxStr '')'']"

text \<open>
  Each \<^verbatim>\<open>forEach\<close> pushes the first capture of a second match, made inside the text of
  an outer match, when there is one.
\<close>

definition pushGroup1 :: "rx \<Rightarrow> string \<Rightarrow> string list" where
  "pushGroup1 r m = (case matchFirst plainFlags r m of None \<Rightarrow> [] | Some mm \<Rightarrow> [group 1 mm])"

definition importsJs :: "string \<Rightarrow> string list" where
  "importsJs content =
     (let importMatches = matchGlobal plainFlags rx_es_import content;
          requireMatches = matchGlobal plainFlags rx_es_require content
      in concat (map (pushGroup1 rx_es_from) importMatches) @
         concat (map (pushGroup1 rx_es_require) requireMatches))"

text \<open>Python: \<^verbatim>\<open>moduleMatch[1] || moduleMatch[2]\<close>.\<close>

definition rx_py :: rx where
  "rx_py =
     Alt (rxSeq [rxStr ''from'', rxPlus ws, Cap 1 (rxPlus nonws), rxPlus ws, rxStr ''import''])
         (rxSeq [rxStr ''import'', rxPlus ws, Cap 2 (rxPlus nonws)])"

definition importsPy :: "string \<Rightarrow> string list" where
  "importsPy content =
     concat (map (\<lambda>m. case matchFirst plainFlags rx_py m of
                         None \<Rightarrow> []
                       | Some mm \<Rightarrow> [if group 1 mm \<noteq> [] then group 1 mm else group 2 mm])
                 (matchGlobal plainFlags rx_py content))"

text \<open>Java.\<close>

definition rx_java :: rx where
  "rx_java =
     rxSeq [rxStr ''import'', rxPlus ws, rxOpt (Cap 1 (Seq (rxStr ''static'') (rxPlus ws))),
            Cap 2 (rxSeq [ident, Star (Seq (Atom (Lit (CHR ''.''))) ident),
                          rxOpt (rxStr ''.*'')]),
            Star ws, Atom (Lit (CHR '';''))]"

definition rx_java_inner :: rx where
  "rx_java_inner =
     rxSeq [rxStr ''import'', rxPlus ws, rxOpt (Seq (rxStr ''static'') (rxPlus ws)),
            Cap 1 (Seq ident (Star (Seq (Atom (Lit (CHR ''.''))) ident)))]"

definition importsJava :: "string \<Rightarrow> string list" where
  "importsJava content =
     concat (map (pushGroup1 rx_java_inner) (matchGlobal plainFlags rx_java content))"

text \<open>Go: grouped imports are split again at the quoted names.\<close>

definition rx_go :: rx where
  "rx_go =
     rxSeq [rxStr ''import'', rxPlus ws,
            Alt (rxSeq [Atom (Lit (CHR ''('')), Star ws, Cap 1 (rxPlus (rxNotSet '')'')), Star ws,
                        Atom (Lit (CHR '')''))])
                (rxSeq [Atom (Lit (CHR 0x22)), Cap 2 (rxPlus (rxNotSet [CHR 0x22])),
                        Atom (Lit (CHR 0x22))])]"

definition rx_go_quoted :: rx where
  "rx_go_quoted =
     rxSeq [Atom (Lit (CHR 0x22)), Cap 1 (rxPlus (rxNotSet [CHR 0x22])), Atom (Lit (CHR 0x22))]"

definition importsGo :: "string \<Rightarrow> string list" where
  "importsGo content =
     concat (map (\<lambda>m. if includesStr m ''(''
                       then concat (map (\<lambda>imp. let cleaned = filter (\<lambda>c. c \<noteq> CHR 0x22) imp
                                                  in if cleaned \<noteq> [] then [cleaned] else [])
                                        (matchGlobal plainFlags rx_go_quoted m))
                       else pushGroup1 rx_go_quoted m)
                 (matchGlobal plainFlags rx_go content))"

text \<open>Rust.\<close>

definition rx_rust :: rx where
  "rx_rust =
     rxSeq [rxStr ''use'', rxPlus ws,
            Cap 1 (rxSeq [ident, Star (Seq (rxStr ''::'') ident),
                          rxOpt (Seq (rxStr ''::'')
                                     (rxAlt [rxSeq [Atom (Lit (CHR ''{'')), rxPlus (rxNotSet ''}''),
                                                    Atom (Lit (CHR ''}''))],
                                             Atom (Lit (CHR ''*'')),
                                             ident]))]),
            rxOpt (rxSeq [rxPlus ws, rxStr ''as'', rxPlus ws, ident]),
            Atom (Lit (CHR '';''))]"

definition rx_rust_inner :: rx where
  "rx_rust_inner =
     rxSeq [rxStr ''use'', rxPlus ws, Cap 1 (Seq ident (Star (Seq (rxStr ''::'') ident)))]"

definition importsRust :: "string \<Rightarrow> string list" where
  "importsRust content =
     concat (map (pushGroup1 rx_rust_inner) (matchGlobal plainFlags rx_rust content))"

text \<open>C and C++.\<close>

definition rx_include :: rx where
  "rx_include =
     rxSeq [rxStr ''#include'', Star ws, rxSet [CHR ''<'', CHR 0x22],
            Cap 1 (rxPlus (rxNotSet [CHR ''>'', CHR 0x22])), rxSet [CHR ''>'', CHR 0x22]]"

definition importsCpp :: "string \<Rightarrow> string list" where
  "importsCpp content =
     concat (map (pushGroup1 rx_include) (matchGlobal plainFlags rx_include content))"

text \<open>PHP: both inner expressions are tried on every outer match.\<close>

definition rx_php_require :: rx where
  "rx_php_require =
     rxSeq [Alt (rxStr ''require'') (rxStr ''include''), rxOpt (rxStr ''_once''), Star ws,
            rxOpt (Atom (Lit (CHR ''(''))), rxSet quotes2, Cap 1 (rxPlus (rxNotSet quotes2)),
            rxSet quotes2]"

definition rx_php_use :: rx where
  "rx_php_use =
     rxSeq [rxStr ''use'', rxPlus ws,
            Cap 1 (Seq (Atom (Cls False [LowerC, UpperC,
                                         C (CHR ''_''), C (CHR 0x5C)]))
                       (Star (Atom (Cls False [LowerC, UpperC,
                                               DigitC, C (CHR ''_''),
                                               C (CHR 0x5C)]))))]"

definition rx_php :: rx where
  "rx_php = Alt rx_php_require rx_php_use"

definition importsPhp :: "string \<Rightarrow> string list" where
  "importsPhp content =
     concat (map (\<lambda>m. pushGroup1 rx_php_require m @ pushGroup1 rx_php_use m)
                 (matchGlobal plainFlags rx_php content))"

text \<open>Ruby.\<close>

definition rx_ruby :: rx where
  "rx_ruby =
     Alt (rxSeq [rxStr ''require'', Star ws, rxSet quotes2, Cap 1 (rxPlus (rxNotSet quotes2)),
                 rxSet quotes2])
         (rxSeq [rxStr ''require_relative'', Star ws, rxSet quotes2,
                 Cap 2 (rxPlus (rxNotSet quotes2)), rxSet quotes2])"

definition rx_ruby_inner :: rx where
  "rx_ruby_inner =
     rxSeq [rxStr ''require'', rxOpt (rxStr ''_relative''), Star ws, rxSet quotes2,
            Cap 1 (rxPlus (rxNotSet quotes2)), rxSet quotes2]"

definition importsRuby :: "string \<Rightarrow> string list" where
  "importsRuby content =
     concat (map (pushGroup1 rx_ruby_inner) (matchGlobal plainFlags rx_ruby content))"

text \<open>The \<^verbatim>\<open>switch\<close> on the extension; no case is the empty array.\<close>

definition rawImports :: "string \<Rightarrow> string \<Rightarrow> string list" where
  "rawImports content ext =
     (if ext \<in> set [''.js'', ''.ts'', ''.tsx'', ''.jsx''] then importsJs content
      else if ext = ''.py'' then importsPy content
      else if ext = ''.java'' then importsJava content
      else if ext = ''.go'' then importsGo content
      else if ext = ''.rs'' then importsRust content
      else if ext \<in> set [''.cpp'', ''.c'', ''.h'', ''.hpp''] then importsCpp content
      else if ext = ''.php'' then importsPhp content
      else if ext = ''.rb'' then importsRuby content
      else [])"

definition supportedExtensions :: "string list" where
  "supportedExtensions =
     [''.js'', ''.ts'', ''.tsx'', ''.jsx'', ''.py'', ''.java'', ''.go'', ''.rs'',
      ''.cpp'', ''.c'', ''.h'', ''.hpp'', ''.php'', ''.rb'']"

text \<open>\<^verbatim>\<open>imports.filter(imp => imp && !imp.startsWith('.'))\<close>.\<close>

definition extractImports :: "string \<Rightarrow> string \<Rightarrow> string list" where
  "extractImports content ext =
     filter (\<lambda>imp. imp \<noteq> [] \<and> \<not> startsWith imp ''.'') (rawImports content ext)"

text \<open>The example lines of the specification.\<close>

definition src_import_left_pad :: string where
  "src_import_left_pad = ''import { x } from '' @ [CHR 0x22] @ ''left-pad'' @ [CHR 0x22]"

definition src_require_pkg :: string where
  "src_require_pkg = ''require('' @ [CHR 0x22] @ ''pkg'' @ [CHR 0x22] @ '')''"

definition src_import_local :: string where
  "src_import_local = ''import x from '' @ [CHR 0x22] @ ''./local'' @ [CHR 0x22]"

section \<open>Paths as strings\<close>

text \<open>
  \<^verbatim>\<open>path.normalize\<close> and \<^verbatim>\<open>path.join\<close> (POSIX) on path strings: a relative path keeps
  its leading \<^verbatim>\<open>..\<close> segments, an absolute one drops them at the root; the empty result
  of a relative path is \<^verbatim>\<open>.\<close>.
\<close>

definition normalizeStepRel :: "bool \<Rightarrow> string list \<Rightarrow> string \<Rightarrow> string list" where
  "normalizeStepRel isAbs acc seg =
     (if seg = [] \<or> seg = ''.'' then acc
      else if seg = ''..'' then
        (if acc \<noteq> [] \<and> last acc \<noteq> ''..'' then butlast acc
         else if isAbs then acc else acc @ [''..''])
      else acc @ [seg])"

definition path_normalize :: "string \<Rightarrow> string" where
  "path_normalize p =
     (if p = [] then ''.''
      else (let isAbs = (hd p = CHR ''/'');
                trailing = (last p = CHR ''/'');
                body = joinWith ''/'' (foldl (normalizeStepRel isAbs) [] (splitOn (CHR ''/'') p));
                body1 = (if body = [] \<and> \<not> isAbs then ''.'' else body);
                body2 = (if body1 \<noteq> [] \<and> trailing then body1 @ ''/'' else body1)
            in if isAbs then ''/'' @ body2 else body2))"

definition path_join_str :: "string \<Rightarrow> string \<Rightarrow> string" where
  "path_join_str dir name =
     (if dir = [] \<and> name = [] then ''.''
      else if dir = [] then path_normalize name
      else if name = [] then path_normalize dir
      else path_normalize (dir @ ''/'' @ name))"

text \<open>
  \<^verbatim>\<open>path.basename\<close>, \<^verbatim>\<open>path.extname\<close> and \<^verbatim>\<open>path.relative\<close>. The extension starts at
  the last dot of the base name, unless that dot is its first character.
\<close>

definition path_basename :: "string \<Rightarrow> string" where
  "path_basename p =
     (case filter (\<lambda>s. s \<noteq> []) (splitOn (CHR ''/'') p) of
        [] \<Rightarrow> []
      | segs \<Rightarrow> last segs)"

definition path_extname :: "string \<Rightarrow> string" where
  "path_extname p =
     (let base = path_basename p;
          tailr = takeWhile (\<lambda>c. c \<noteq> CHR ''.'') (rev base)
      in if length tailr = length base then []
         else if length tailr + 1 = length base then []
         else if base = ''..'' then []
         else CHR ''.'' # rev tailr)"

fun commonPrefixLen :: "string list \<Rightarrow> string list \<Rightarrow> nat" where
  "commonPrefixLen (x # xs) (y # ys) = (if x = y then Suc (commonPrefixLen xs ys) else 0)"
| "commonPrefixLen _ _ = 0"

definition path_relative :: "fs_world \<Rightarrow> string \<Rightarrow> string \<Rightarrow> string" where
  "path_relative w fromPath toPath =
     (let fromSegs = path_resolve w fromPath;
          toSegs = path_resolve w toPath;
          n = commonPrefixLen fromSegs toSegs
      in joinWith ''/'' (replicate (length fromSegs - n) ''..'' @ drop n toSegs))"

section \<open>Reading the file system\<close>

fun isDirectory :: "fsnode \<Rightarrow> bool" where
  "isDirectory (Dir items) = True"
| "isDirectory UnreadableDir = True"
| "isDirectory _ = False"

fun isFile :: "fsnode \<Rightarrow> bool" where
  "isFile (File c) = True"
| "isFile UnreadableFile = True"
| "isFile _ = False"

text \<open>
  How the operating system finds the file for a path string handed to the \<^verbatim>\<open>fs\<close>
  module: segment by segment through the directories that exist, a relative path from
  the working directory. Every segment but the last must lead through a directory, also
  before a \<^verbatim>\<open>..\<close>; the empty path names nothing. The list is the chain of directories
  from the current one up to the root.
\<close>

fun walkSegs :: "fsnode list \<Rightarrow> string list \<Rightarrow> fsnode list option" where
  "walkSegs stack [] = Some stack"
| "walkSegs [] (seg # segs) = None"
| "walkSegs (n # up) (seg # segs) =
     (if \<not> isDirectory n then None
      else if seg = [] \<or> seg = ''.'' then walkSegs (n # up) segs
      else if seg = ''..'' then walkSegs (if up = [] then [n] else up) segs
      else (case n of
              Dir items \<Rightarrow> (case map_of items seg of
                              None \<Rightarrow> None
                            | Some child \<Rightarrow> walkSegs (child # n # up) segs)
            | _ \<Rightarrow> None))"

definition statPath :: "fs_world \<Rightarrow> string \<Rightarrow> fsnode option" where
  "statPath w p =
     (if p = [] then None
      else (case (if hd p = CHR ''/'' then Some [fsroot w]
                  else walkSegs [fsroot w] (cwd w)) of
              None \<Rightarrow> None
            | Some start \<Rightarrow>
                (case walkSegs start (splitOn (CHR ''/'') p) of
                   Some (n # up) \<Rightarrow> if n = Broken then None else Some n
                 | _ \<Rightarrow> None)))"

text \<open>\<^verbatim>\<open>fs.existsSync\<close> on a path string.\<close>

definition existsPath :: "fs_world \<Rightarrow> string \<Rightarrow> bool" where
  "existsPath w p = (statPath w p \<noteq> None)"

text \<open>An error thrown by the run time.\<close>

datatype js_error = Error string | FsError string | TypeError string

definition readFileSync :: "fs_world \<Rightarrow> string \<Rightarrow> js_error + string" where
  "readFileSync w p =
     (case statPath w p of
        Some (File c) \<Rightarrow> Inr c
      | _ \<Rightarrow> Inl (FsError p))"

section \<open>Document Locator (fileSystem.ts, findKeyDocs)\<close>

definition keyPatterns :: "rx list" where
  "keyPatterns =
     [rxSeq [Bol, rxStr ''readme.md'', Eol],
      rxSeq [Bol, rxStr ''architecture.md'', Eol],
      rxSeq [Bol, rxStr ''planning.md'', Eol],
      rxSeq [Bol, rxStr ''design.md'', Eol],
      rxSeq [Bol, rxStr ''prd.md'', Eol],
      rxSeq [Bol, rxStr ''contributing.md'', Eol],
      rxSeq [Bol, rxStr ''agents.md'', Eol],
      rxSeq [Bol, rxStr ''tasks.md'', Eol],
      rxSeq [rxStr ''copilot-instructions.md'', Eol],
      rxSeq [rxStr ''claude.md'', Eol]]"

definition matchesKeyPattern :: "string \<Rightarrow> bool" where
  "matchesKeyPattern item = list_ex (\<lambda>pattern. regexTest iFlags pattern item) keyPatterns"

definition keyDocSkipDirs :: "string list" where
  "keyDocSkipDirs = [''node_modules'', ''.git'', ''dist'', ''build'']"

text \<open>
  The recursive \<^verbatim>\<open>scanDir\<close>. The result is the array \<^verbatim>\<open>keyDocs\<close> after the call and
  whether the call threw: the one \<^verbatim>\<open>try\<close> around the whole scan ends it at the first
  error, keeping what was pushed before.
\<close>

fun scanDir :: "string \<Rightarrow> fsnode \<Rightarrow> nat \<Rightarrow> string list \<Rightarrow> bool \<times> string list"
and scanItems ::
  "string \<Rightarrow> (string \<times> fsnode) list \<Rightarrow> nat \<Rightarrow> string list \<Rightarrow> bool \<times> string list" where
  "scanDir dir (Dir items) depth keyDocs =
     (if depth > 10 then (False, keyDocs) else scanItems dir items depth keyDocs)"
| "scanDir dir node depth keyDocs =
     (if depth > 10 then (False, keyDocs) else (True, keyDocs))"
| "scanItems dir [] depth keyDocs = (False, keyDocs)"
| "scanItems dir ((item, node) # others) depth keyDocs =
     (let itemPath = path_join_str dir item
      in if node = Broken then (True, keyDocs)
         else if isDirectory node \<and> item \<notin> set keyDocSkipDirs then
           (case scanDir itemPath node (depth + 1) keyDocs of
              (True, keyDocs1) \<Rightarrow> (True, keyDocs1)
            | (False, keyDocs1) \<Rightarrow> scanItems dir others depth keyDocs1)
         else if isFile node \<and> endsWith item ''.md'' then
           scanItems dir others depth
             (if matchesKeyPattern item then keyDocs @ [itemPath] else keyDocs)
         else scanItems dir others depth keyDocs)"

definition findKeyDocs :: "fs_world \<Rightarrow> string \<Rightarrow> string list" where
  "findKeyDocs w projectPath =
     (case statPath w projectPath of
        None \<Rightarrow> []
      | Some node \<Rightarrow> snd (scanDir projectPath node 0 []))"

section \<open>Source File Locator (fileSystem.ts, findCodeFiles)\<close>

definition codeExtensions :: "string list" where
  "codeExtensions =
     [''.ts'', ''.js'', ''.tsx'', ''.jsx'', ''.vue'', ''.svelte'',
      ''.py'', ''.java'', ''.go'', ''.rs'', ''.cpp'', ''.c'', ''.cs'', ''.php'', ''.rb'',
      ''.swift'', ''.kt'', ''.dart'',
      ''.hs'', ''.elm'', ''.clj'', ''.ml'', ''.fs'',
      ''.sql'', ''.json'', ''.yaml'', ''.yml'', ''.toml'', ''.xml'',
      ''.sh'', ''.bash'', ''.ps1'', ''.bat'',
      ''.h'', ''.hpp'', ''.hxx'']"

definition codeSkipDirs :: "string list" where
  "codeSkipDirs =
     [''node_modules'', ''.git'', ''dist'', ''build'', ''__pycache__'',
      ''target'', ''bin'', ''obj'', ''.vscode'', ''.idea'',
      ''vendor'', ''.gradle'', ''.maven'', ''cmake-build-debug'']"

text \<open>
  The recursive \<^verbatim>\<open>walkDir\<close>. Here the \<^verbatim>\<open>try\<close> is inside, around the loop over one
  directory: an error ends the loop of that directory only.
\<close>

fun walkDir :: "string \<Rightarrow> fsnode \<Rightarrow> nat \<Rightarrow> string list \<Rightarrow> string list"
and walkItems :: "string \<Rightarrow> (string \<times> fsnode) list \<Rightarrow> nat \<Rightarrow> string list \<Rightarrow> string list" where
  "walkDir dir (Dir items) depth codeFiles =
     (if depth > 10 then codeFiles else walkItems dir items depth codeFiles)"
| "walkDir dir node depth codeFiles = codeFiles"
| "walkItems dir [] depth codeFiles = codeFiles"
| "walkItems dir ((item, node) # others) depth codeFiles =
     (let itemPath = path_join_str dir item
      in if node = Broken then codeFiles
         else if isDirectory node \<and> item \<notin> set codeSkipDirs then
           walkItems dir others depth (walkDir itemPath node (depth + 1) codeFiles)
         else if isFile node \<and> list_ex (\<lambda>ext. endsWith item ext) codeExtensions then
           walkItems dir others depth (codeFiles @ [itemPath])
         else walkItems dir others depth codeFiles)"

definition findCodeFiles :: "fs_world \<Rightarrow> string \<Rightarrow> string list" where
  "findCodeFiles w projectPath =
     (case statPath w projectPath of
        None \<Rightarrow> []
      | Some node \<Rightarrow> walkDir projectPath node 0 [])"

text \<open>Example projects.\<close>

definition world_docs :: fs_world where
  "world_docs =
     \<lparr> fsroot = Dir [(''proj'', Dir [(''README.md'', File ''A sample project for the tests.''),
                                      (''readme.MD'', File ''Upper-case extension.''),
                                      (''docs'', Dir [(''Design.md'', File ''Design notes.'')])])],
       cwd = [''proj''] \<rparr>"

fun nestDirs :: "nat \<Rightarrow> fsnode \<Rightarrow> fsnode" where
  "nestDirs 0 node = node"
| "nestDirs (Suc n) node = Dir [(''d'', nestDirs n node)]"

definition world_deep :: "nat \<Rightarrow> fs_world" where
  "world_deep n =
     \<lparr> fsroot = Dir [(''proj'', nestDirs n (Dir [(''README.md'', File ''Deep.'')]))],
       cwd = [''proj''] \<rparr>"

section \<open>Heuristic Code Analyzer: the other passes (codeAnalyzer.ts)\<close>

text \<open>An alternation of literal words.\<close>

definition rxWords :: "string list \<Rightarrow> rx" where
  "rxWords words = rxAlt (map rxStr words)"

text \<open>A keyword, white space, then at least one word character: \<^verbatim>\<open>kw\s+\w+\<close>.\<close>

definition rxKwName :: "string \<Rightarrow> rx" where
  "rxKwName kw = rxSeq [rxStr kw, rxPlus ws, rxPlus wordc]"

subsection \<open>isEntryPoint\<close>

definition entryPatterns :: "rx list" where
  "entryPatterns =
     [rxSeq [rxStr ''main'', Star ws, rxStr ''(''],
      rxStr ''express()'',
      rxStr ''createApp('',
      rxStr ''ReactDOM.render'',
      rxSeq [rxStr ''new'', rxPlus ws, rxStr ''Server(''],
      rxSeq [rxStr ''if'', rxPlus ws, rxStr ''__name__'', Star ws, rxStr ''=='', Star ws,
             rxSet quotes2, rxStr ''__main__'', rxSet quotes2],
      rxSeq [rxStr ''public'', rxPlus ws, rxStr ''static'', rxPlus ws, rxStr ''void'', rxPlus ws,
             rxStr ''main'', Star ws, rxStr ''(''],
      rxSeq [rxStr ''int'', rxPlus ws, rxStr ''main'', Star ws, rxStr ''(''],
      rxSeq [rxStr ''void'', rxPlus ws, rxStr ''main'', Star ws, rxStr ''(''],
      rxSeq [rxStr ''func'', rxPlus ws, rxStr ''main'', Star ws, rxStr ''('', Star ws, rxStr '')''],
      rxSeq [rxStr ''fn'', rxPlus ws, rxStr ''main'', Star ws, rxStr ''('', Star ws, rxStr '')''],
      rxSeq [rxStr ''static'', rxPlus ws, rxStr ''void'', rxPlus ws, rxStr ''Main'', Star ws,
             rxStr ''(''],
      Alt (Seq (rxStr ''namespace'') (rxPlus ws)) (rxStr ''<?php''),
      rxSeq [rxStr ''if'', rxPlus ws, rxStr ''__FILE__'', Star ws, rxStr ''=='', Star ws,
             rxStr ''$0'']]"

definition isEntryPoint :: "string \<Rightarrow> string \<Rightarrow> bool" where
  "isEntryPoint content filePath =
     (let isMainFile = list_ex (\<lambda>name. includesStr (toLowerCase filePath) name)
                         [''index'', ''main'', ''app'', ''server'', ''program''];
          hasEntryPattern = list_ex (\<lambda>pattern. regexTest plainFlags pattern content) entryPatterns
      in isMainFile \<or> hasEntryPattern)"

subsection \<open>detectPatterns\<close>

text \<open>
  The table of tests in source order: the flags and the expression of each test and the
  tag it pushes. The last test of the function reads the file path instead of the content.
\<close>

definition contentPatternTests :: "(flags \<times> rx \<times> string) list" where
  "contentPatternTests =
     [(iFlags, rxAlt [rxKwName ''class'', rxKwName ''struct'', rxKwName ''interface''],
       ''OOP/Classes''),
      (iFlags, rxAlt [rxKwName ''function'', rxKwName ''def'', rxKwName ''fn'', rxKwName ''func'',
                      rxSeq [rxStr ''const'', rxPlus ws, rxPlus wordc, Star ws, rxStr ''='',
                             Star (Atom Dot), rxStr ''=>''],
                      rxSeq [rxPlus wordc, Star ws, rxStr ''('']],
       ''Functions''),
      (iFlags, rxAlt [rxStr ''.then('', Seq (rxStr ''async'') (rxPlus ws),
                      Seq (rxStr ''await'') (rxPlus ws), rxStr ''Promise'', rxStr ''Future'',
                      rxStr ''Task''],
       ''Async/Promises''),
      (mFlags, rxAlt [rxSeq [rxStr ''try'', Star ws, rxStr ''{''],
                      rxSeq [WordB, rxStr ''try:'', Star ws, Eol],
                      rxSeq [rxStr ''catch'', Star ws, rxStr ''(''],
                      rxSeq [rxStr ''except'', Star ws, rxStr '':'']],
       ''Error Handling''),
      (iFlags, rxAlt [rxSeq [rxStr ''test'', Star ws, rxStr ''(''],
                      rxSeq [rxStr ''describe'', Star ws, rxStr ''(''],
                      rxSeq [rxStr ''it'', Star ws, rxStr ''(''],
                      rxStr ''@Test'', rxStr ''unittest'', rxStr ''pytest''],
       ''Testing''),
      (iFlags, Alt (rxSeq [rxStr ''export'', rxPlus ws,
                           rxOpt (Cap 1 (Seq (rxStr ''default'') (rxPlus ws)))])
                   (rxStr ''module.exports''),
       ''ES6 Modules''),
      (iFlags, rxWords [''React.'', ''useState'', ''useEffect'', ''Component''], ''React''),
      (iFlags, rxWords [''express()'', ''app.get'', ''app.post'', ''router.''],
       ''Express.js/Web Server''),
      (iFlags, rxWords [''SELECT'', ''INSERT'', ''UPDATE'', ''DELETE'', ''CREATE TABLE'',
                        ''ALTER TABLE''],
       ''SQL/Database''),
      (iFlags, rxWords [''mongoose.'', ''sequelize.'', ''prisma.'', ''TypeORM'', ''Hibernate''],
       ''ORM''),
      (iFlags, rxAlt [rxStr ''__init__.py'',
                      rxSeq [rxStr ''if'', rxPlus ws, rxStr ''__name__'', Star ws, rxStr ''==''],
                      rxKwName ''import'', rxKwName ''from''],
       ''Python Modules''),
      (iFlags, rxWords [''django'', ''flask'', ''fastapi'', ''@app.'', ''@router.''],
       ''Python Web Framework''),
      (iFlags, rxWords [''numpy'', ''pandas'', ''matplotlib'', ''sklearn'', ''tensorflow'',
                        ''pytorch''],
       ''Data Science/ML''),
      (iFlags, rxAlt [rxKwName ''package'', rxSeq [rxStr ''import'', rxPlus ws, rxStr ''java.''],
                      rxStr ''@Override'', rxStr ''@Component''],
       ''Java/JVM''),
      (iFlags, rxWords [''Spring'', ''@Autowired'', ''@Service'', ''@Repository'',
                        ''@Controller''],
       ''Spring Framework''),
      (iFlags, rxWords [''JUnit'', ''@Test'', ''Mockito''], ''Java Testing''),
      (iFlags, rxAlt [rxKwName ''package'', rxSeq [rxStr ''import'', rxPlus ws, rxStr ''(''],
                      rxKwName ''func'', rxSeq [rxStr ''go'', rxPlus ws, rxStr ''func''],
                      Seq (rxStr ''chan'') (rxPlus ws)],
       ''Go Language''),
      (iFlags, rxWords [''gorilla/mux'', ''gin.'', ''echo.'', ''http.Handle''], ''Go Web Server''),
      (iFlags, rxAlt [rxKwName ''use'', rxKwName ''mod'', rxKwName ''impl'', rxStr ''#[derive'',
                      rxStr ''cargo''],
       ''Rust Language''),
      (iFlags, rxWords [''actix'', ''warp'', ''rocket'', ''axum''], ''Rust Web Framework''),
      (iFlags, rxWords [''#include'', ''#define'', ''#ifndef'', ''std::'', ''using namespace''],
       ''C/C++''),
      (iFlags, rxWords [''iostream'', ''vector'', ''string'', ''map'', ''set'', ''algorithm''],
       ''C++ STL''),
      (iFlags, rxWords [''docker'', ''dockerfile'', ''kubernetes'', ''helm'', ''terraform''],
       ''DevOps/Infrastructure'')]"

definition pathPatternTest :: "flags \<times> rx \<times> string" where
  "pathPatternTest =
     (iFlags, rxWords [''.yml'', ''.yaml'', ''ansible'', ''pipeline''], ''Configuration as Code'')"

definition runTests :: "(flags \<times> rx \<times> string) list \<Rightarrow> string \<Rightarrow> string list" where
  "runTests tests s =
     concat (map (\<lambda>(f, r, tag). if regexTest f r s then [tag] else []) tests)"

definition detectPatterns :: "string \<Rightarrow> string \<Rightarrow> string list" where
  "detectPatterns content filePath =
     runTests contentPatternTests content @ runTests [pathPatternTest] (toLowerCase filePath)"

subsection \<open>analyzeArchitecture\<close>

definition rxLayer :: "string \<Rightarrow> rx" where
  "rxLayer name =
     Alt (rxSeq [rxStr ''class'', rxPlus ws, rxPlus wordc, Star (Atom Dot), rxStr name])
         (rxSeq [rxStr name, Star (Atom Dot), rxStr ''{''])"

definition architectureTests :: "(flags \<times> rx \<times> string) list" where
  "architectureTests =
     [(plainFlags, rxAlt [rxSeq [rxStr ''server'', Star ws, rxStr ''='', Star ws, rxStr ''new'',
                                 rxPlus ws, rxStr ''Server''],
                          rxStr ''createServer'', rxStr ''express()''],
       ''Server Architecture''),
      (plainFlags, rxWords [''router.'', ''Router('', ''app.use''], ''Routing Pattern''),
      (plainFlags, rxWords [''middleware'', ''app.use(''], ''Middleware Pattern''),
      (plainFlags, rxLayer ''Controller'', ''Controller Pattern''),
      (plainFlags, rxLayer ''Service'', ''Service Layer Pattern''),
      (plainFlags, rxLayer ''Repository'', ''Repository Pattern''),
      (plainFlags, rxWords [''Observable'', ''Subject'', ''pipe(''], ''Reactive Programming''),
      (plainFlags, rxWords [''useState'', ''useEffect'', ''useContext''], ''React Hooks Pattern''),
      (plainFlags, rxSeq [rxStr ''try'', Star ws, rxStr ''{'', Star anychar, rxStr ''catch'',
                          Star ws, rxStr ''(''],
       ''Error Handling''),
      (plainFlags, rxWords [''logger.'', ''console.'', ''log(''], ''Logging''),
      (plainFlags, rxWords [''process.env'', ''config.'', ''Config''],
       ''Configuration Management''),
      (plainFlags, rxWords [''Tool[]'', ''tools:'', ''setRequestHandler''], ''MCP Server Pattern'')]"

definition analyzeArchitecture :: "string \<Rightarrow> string \<Rightarrow> string list" where
  "analyzeArchitecture content filePath = runTests architectureTests content"

subsection \<open>extractCodeElements\<close>

datatype element_kind = class_kind | function_kind | arrow_function_kind | interface_kind | type_kind

text \<open>The interface CodeElement; an optional field that is not set is \<open>None\<close>.\<close>

record CodeElement =
  ce_type :: element_kind
  ce_name :: string
  ce_file :: string
  ce_methods :: "string list option"
  ce_lineEstimate :: "nat option"
  ce_isAsync :: "bool option"
  ce_isExported :: "bool option"

definition rx_class :: rx where
  "rx_class =
     rxSeq [rxStr ''class'', rxPlus ws, Cap 1 (rxPlus wordc), LazyStar anychar, rxStr ''{'',
            Cap 2 (LazyStar anychar), Bol, rxStr ''}'']"

definition rx_class_name :: rx where
  "rx_class_name = rxSeq [rxStr ''class'', rxPlus ws, Cap 1 (rxPlus wordc)]"

definition rx_method :: rx where
  "rx_method =
     rxSeq [Bol, Star ws, rxOpt (Cap 1 (rxWords [''public'', ''private'', ''protected''])),
            Star ws, Cap 2 (rxPlus wordc), Star ws, rxStr ''('']"

definition rx_function :: rx where
  "rx_function =
     rxSeq [rxOpt (Seq (rxStr ''export'') (rxPlus ws)), rxOpt (Seq (rxStr ''async'') (rxPlus ws)),
            rxStr ''function'', rxPlus ws, Cap 1 (rxPlus wordc)]"

definition rx_function_name :: rx where
  "rx_function_name = rxSeq [rxStr ''function'', rxPlus ws, Cap 1 (rxPlus wordc)]"

definition rx_arrow :: rx where
  "rx_arrow =
     rxSeq [rxOpt (Seq (rxStr ''export'') (rxPlus ws)), rxStr ''const'', rxPlus ws,
            Cap 1 (rxPlus wordc), Star ws, rxStr ''='', Star ws,
            rxOpt (Seq (rxStr ''async'') (rxPlus ws)), rxStr ''('', Star (rxNotSet '')''),
            rxStr '')'', Star ws, rxStr ''=>'']"

definition rx_const_name :: rx where
  "rx_const_name = rxSeq [rxStr ''const'', rxPlus ws, Cap 1 (rxPlus wordc)]"

definition rx_interface :: rx where
  "rx_interface =
     rxSeq [rxOpt (Seq (rxStr ''export'') (rxPlus ws)), rxStr ''interface'', rxPlus ws,
            Cap 1 (rxPlus wordc)]"

definition rx_interface_name :: rx where
  "rx_interface_name = rxSeq [rxStr ''interface'', rxPlus ws, Cap 1 (rxPlus wordc)]"

definition rx_type :: rx where
  "rx_type =
     rxSeq [rxOpt (Seq (rxStr ''export'') (rxPlus ws)), rxStr ''type'', rxPlus ws,
            Cap 1 (rxPlus wordc)]"

definition rx_type_name :: rx where
  "rx_type_name = rxSeq [rxStr ''type'', rxPlus ws, Cap 1 (rxPlus wordc)]"

text \<open>
  The class loop, with the index of the match for the line estimate; the methods are
  the matches of the signature scan, trimmed and without parentheses.
\<close>

definition classElement :: "string \<Rightarrow> nat \<times> string \<Rightarrow> CodeElement list" where
  "classElement filePath im =
     (case matchFirst plainFlags rx_class_name (snd im) of
        None \<Rightarrow> []
      | Some nameMatch \<Rightarrow>
          [\<lparr> ce_type = class_kind, ce_name = group 1 nameMatch, ce_file = filePath,
             ce_methods = Some (map (\<lambda>m. filter (\<lambda>c. c \<noteq> CHR ''('' \<and> c \<noteq> CHR '')'') (trim m))
                                    (matchGlobal mFlags rx_method (snd im))),
             ce_lineEstimate = Some (fst im * 50),
             ce_isAsync = None, ce_isExported = None \<rparr>])"

definition namedElement ::
  "element_kind \<Rightarrow> rx \<Rightarrow> bool \<Rightarrow> string \<Rightarrow> string \<Rightarrow> CodeElement list" where
  "namedElement kind nameRx withAsync filePath m =
     (case matchFirst plainFlags nameRx m of
        None \<Rightarrow> []
      | Some nameMatch \<Rightarrow>
          [\<lparr> ce_type = kind, ce_name = group 1 nameMatch, ce_file = filePath,
             ce_methods = None, ce_lineEstimate = None,
             ce_isAsync = (if withAsync then Some (includesStr m ''async'') else None),
             ce_isExported = Some (includesStr m ''export'') \<rparr>])"

definition extractCodeElements :: "string \<Rightarrow> string \<Rightarrow> CodeElement list" where
  "extractCodeElements content filePath =
     (let classMatches = matchGlobal mFlags rx_class content;
          functionMatches = matchGlobal plainFlags rx_function content;
          arrowFunctionMatches = matchGlobal plainFlags rx_arrow content
      in concat (map (classElement filePath) (enumerate 0 classMatches)) @
         concat (map (namedElement function_kind rx_function_name True filePath) functionMatches) @
         concat (map (namedElement arrow_function_kind rx_const_name True filePath)
                     arrowFunctionMatches) @
         (if endsWith filePath ''.ts'' \<or> endsWith filePath ''.tsx''
          then concat (map (namedElement interface_kind rx_interface_name False filePath)
                           (matchGlobal plainFlags rx_interface content)) @
               concat (map (namedElement type_kind rx_type_name False filePath)
                           (matchGlobal plainFlags rx_type content))
          else []))"

section \<open>Per-run aggregation (server.ts, analyzeCodeFiles)\<close>

text \<open>
  The interface CodeAnalysisResult. The field \<open>codeStructure\<close> starts as the empty
  object \<^verbatim>\<open>{} as any\<close>, which is \<open>None\<close> here, until the structure map is built.
\<close>

record CodeAnalysisResult =
  dependencies :: "string list"
  entryPoints :: "string list"
  patterns :: "string list"
  codeStructure :: "CodeStructure option"
  functionsAndClasses :: "CodeElement list"
  fileContents :: "FileContent list"
  architecture :: "string list"

definition emptyAnalysis :: CodeAnalysisResult where
  "emptyAnalysis =
     \<lparr> dependencies = [], entryPoints = [], patterns = [], codeStructure = None,
       functionsAndClasses = [], fileContents = [], architecture = [] \<rparr>"

text \<open>
  \<^verbatim>\<open>[...new Set(xs)]\<close>: the elements in the order of their first occurrence.
\<close>

definition dedupe :: "'a list \<Rightarrow> 'a list" where
  "dedupe xs = foldl (\<lambda>seen x. if x \<in> set seen then seen else seen @ [x]) [] xs"

text \<open>The body of the loop for one file whose content was read.\<close>

definition analyzeFile ::
  "fs_world \<Rightarrow> string \<Rightarrow> string \<Rightarrow> string \<Rightarrow> CodeAnalysisResult \<Rightarrow> CodeAnalysisResult" where
  "analyzeFile w projectPath filePath content analysis =
     (let relativePath = path_relative w projectPath filePath;
          fileSize = length content;
          lineCount = length (splitOn (CHR 0x0A) content)
      in analysis
           \<lparr> fileContents := fileContents analysis @
                [\<lparr> fc_path = relativePath, fc_content = content, fc_size = fileSize,
                   fc_lines = lineCount, fc_extension = path_extname filePath \<rparr>],
             dependencies := dependencies analysis @ extractImports content (path_extname filePath),
             entryPoints := entryPoints analysis @
                (if isEntryPoint content relativePath then [relativePath] else []),
             patterns := patterns analysis @ detectPatterns content relativePath,
             functionsAndClasses := functionsAndClasses analysis @
                extractCodeElements content relativePath,
             architecture := architecture analysis @ analyzeArchitecture content relativePath \<rparr>)"

text \<open>
  The loop over the code files. It stops at the first file that cannot be read; the flag
  says that the read threw, and the record is what had been pushed until then.
\<close>

fun analyzeLoop ::
  "fs_world \<Rightarrow> string \<Rightarrow> string list \<Rightarrow> CodeAnalysisResult \<Rightarrow> bool \<times> CodeAnalysisResult" where
  "analyzeLoop w projectPath [] analysis = (False, analysis)"
| "analyzeLoop w projectPath (filePath # others) analysis =
     (case readFileSync w filePath of
        Inl e \<Rightarrow> (True, analysis)
      | Inr content \<Rightarrow>
          analyzeLoop w projectPath others (analyzeFile w projectPath filePath content analysis))"

text \<open>
  The whole function: the \<^verbatim>\<open>catch\<close> only logs, so after an error the record is returned
  as it is, without structure map and without the removal of duplicates.
\<close>

definition analyzeCodeFiles :: "fs_world \<Rightarrow> string \<Rightarrow> CodeAnalysisResult" where
  "analyzeCodeFiles w projectPath =
     (let codeFiles = findCodeFiles w projectPath;
          (threw, analysis) = analyzeLoop w projectPath codeFiles emptyAnalysis
      in if threw then analysis
         else (let (structure, sorted) = buildCodeStructureMap (fileContents analysis)
               in analysis
                    \<lparr> fileContents := sorted,
                      codeStructure := Some structure,
                      dependencies := dedupe (dependencies analysis),
                      entryPoints := dedupe (entryPoints analysis),
                      patterns := dedupe (patterns analysis),
                      architecture := dedupe (architecture analysis) \<rparr>))"

text \<open>The content of a file that can be read.\<close>

definition contentOf :: "fs_world \<Rightarrow> string \<Rightarrow> string" where
  "contentOf w p = (case readFileSync w p of Inr c \<Rightarrow> c | Inl e \<Rightarrow> [])"

definition readable :: "fs_world \<Rightarrow> string \<Rightarrow> bool" where
  "readable w p = (case readFileSync w p of Inr c \<Rightarrow> True | Inl e \<Rightarrow> False)"

text \<open>
  An example project: two JavaScript files that both require \<^verbatim>\<open>express\<close>, the first
  one declaring the function \<^verbatim>\<open>start\<close> twice.
\<close>

definition src_twice :: string where
  "src_twice =
     ''const e = require('' @ [CHR 0x27] @ ''express'' @ [CHR 0x27] @ '')'' @ [CHR 0x0A] @
     ''function start() {}'' @ [CHR 0x0A] @ ''function start() {}''"

definition src_again :: string where
  "src_again = ''const e = require('' @ [CHR 0x27] @ ''express'' @ [CHR 0x27] @ '')''"

definition world_app :: fs_world where
  "world_app =
     \<lparr> fsroot = Dir [(''app'', Dir [(''package.json'', File ''{}''),
                                     (''a.js'', File src_twice),
                                     (''b.js'', File src_again)])],
       cwd = [''app''] \<rparr>"

text \<open>The loop when every read succeeds: one step per file, in order.\<close>

definition analyzeAll ::
  "fs_world \<Rightarrow> string \<Rightarrow> string list \<Rightarrow> CodeAnalysisResult \<Rightarrow> CodeAnalysisResult" where
  "analyzeAll w projectPath files analysis =
     foldl (\<lambda>a p. analyzeFile w projectPath p (contentOf w p) a) analysis files"

section \<open>Phase Report Synthesizer (reportGenerator.ts)\<close>

text \<open>The emoji of the report texts, as UTF-8 bytes.\<close>

definition emoji_bar_chart :: string where
  "emoji_bar_chart = [CHR 0xF0, CHR 0x9F, CHR 0x93, CHR 0x8A]"

definition emoji_folder :: string where
  "emoji_folder = [CHR 0xF0, CHR 0x9F, CHR 0x93, CHR 0x81]"

definition emoji_clipboard :: string where
  "emoji_clipboard = [CHR 0xF0, CHR 0x9F, CHR 0x93, CHR 0x8B]"

definition emoji_link :: string where
  "emoji_link = [CHR 0xF0, CHR 0x9F, CHR 0x94, CHR 0x97]"

definition emoji_door :: string where
  "emoji_door = [CHR 0xF0, CHR 0x9F, CHR 0x9A, CHR 0xAA]"

definition emoji_gear :: string where
  "emoji_gear = [CHR 0xE2, CHR 0x9A, CHR 0x99, CHR 0xEF, CHR 0xB8, CHR 0x8F]"

definition emoji_crane :: string where
  "emoji_crane = [CHR 0xF0, CHR 0x9F, CHR 0x8F, CHR 0x97, CHR 0xEF, CHR 0xB8, CHR 0x8F]"

definition emoji_palette :: string where
  "emoji_palette = [CHR 0xF0, CHR 0x9F, CHR 0x8E, CHR 0xA8]"

definition emoji_page :: string where
  "emoji_page = [CHR 0xF0, CHR 0x9F, CHR 0x93, CHR 0x84]"

definition emoji_target :: string where
  "emoji_target = [CHR 0xF0, CHR 0x9F, CHR 0x8E, CHR 0xAF]"

definition emoji_check :: string where
  "emoji_check = [CHR 0xE2, CHR 0x9C, CHR 0x85]"

definition emoji_warning :: string where
  "emoji_warning = [CHR 0xE2, CHR 0x9A, CHR 0xA0, CHR 0xEF, CHR 0xB8, CHR 0x8F]"

definition emoji_red :: string where
  "emoji_red = [CHR 0xF0, CHR 0x9F, CHR 0x94, CHR 0xB4]"

definition emoji_yellow :: string where
  "emoji_yellow = [CHR 0xF0, CHR 0x9F, CHR 0x9F, CHR 0xA1]"

definition emoji_green :: string where
  "emoji_green = [CHR 0xF0, CHR 0x9F, CHR 0x9F, CHR 0xA2]"

definition emoji_rocket :: string where
  "emoji_rocket = [CHR 0xF0, CHR 0x9F, CHR 0x9A, CHR 0x80]"

definition emoji_chart_up :: string where
  "emoji_chart_up = [CHR 0xF0, CHR 0x9F, CHR 0x93, CHR 0x88]"

definition emoji_magnifier :: string where
  "emoji_magnifier = [CHR 0xF0, CHR 0x9F, CHR 0x94, CHR 0x8D]"

text \<open>Numbers in template strings: the decimal digits of a natural number.\<close>

fun showNat :: "nat \<Rightarrow> string" where
  "showNat n = (if n < 10 then [digitChars ! n] else showNat (n div 10) @ [digitChars ! (n mod 10)])"

declare showNat.simps [simp del]

text \<open>
  \<^verbatim>\<open>(n / 1024).toFixed(1)\<close> for a byte count \<open>n\<close>: the nearest multiple of one tenth,
  the larger one at a tie.
\<close>

definition kilobytes1 :: "nat \<Rightarrow> string" where
  "kilobytes1 n =
     (let tenths = (10 * n + 512) div 1024
      in showNat (tenths div 10) @ ''.'' @ showNat (tenths mod 10))"

text \<open>\<^verbatim>\<open>s.charAt(0).toUpperCase() + s.slice(1)\<close>.\<close>

definition capitalize :: "string \<Rightarrow> string" where
  "capitalize s = (case s of [] \<Rightarrow> [] | c # cs \<Rightarrow> toUpperChar c # cs)"

text \<open>A record of the analysis history (the interface CodebaseAnalysis).\<close>

record CodebaseAnalysis =
  ca_projectPath :: string
  ca_phase :: string
  ca_findings :: string
  ca_nextPhaseNeeded :: bool
  ca_timestamp :: string

subsection \<open>summarizeDocument\<close>

definition summarizeDocument :: "string \<Rightarrow> string \<Rightarrow> string" where
  "summarizeDocument content filename =
     (let lines10 = take 10 (splitOn (CHR 0x0A) content);
          firstParagraph = (case find (\<lambda>line. length (trim line) > 20) lines10 of
                              Some line \<Rightarrow> line
                            | None \<Rightarrow> (case lines10 of [] \<Rightarrow> [] | l # ls \<Rightarrow> l))
      in take 100 (trim firstParagraph) @ (if length firstParagraph > 100 then ''...'' else []))"

subsection \<open>processPhase1\<close>

definition docLine :: "fs_world \<Rightarrow> string \<Rightarrow> string" where
  "docLine w docPath =
     (let docName = path_basename docPath
      in case readFileSync w docPath of
           Inr content \<Rightarrow>
             ''- **'' @ docName @ ''**: '' @ summarizeDocument content docName @ [CHR 0x0A]
         | Inl e \<Rightarrow> ''- **'' @ docName @ (''**: Could not read file'' @ [CHR 0x0A]))"

definition processPhase1 :: "fs_world \<Rightarrow> string \<Rightarrow> string list \<Rightarrow> string" where
  "processPhase1 w projectPath keyDocs =
     (''## Phase 1: Conceptual Understanding'' @ [CHR 0x0A, CHR 0x0A]) @
     ''**Key Documents Found:** '' @ showNat (length keyDocs) @ [CHR 0x0A] @
     (if length keyDocs > 0
      then ([CHR 0x0A] @ ''**Document Analysis:**'' @ [CHR 0x0A]) @
           concat (map (docLine w) (take 5 keyDocs)) @
           ([CHR 0x0A] @ ''**Project Understanding:**'' @ [CHR 0x0A]) @
           (''- Project appears to have structured documentation'' @ [CHR 0x0A]) @
           (''- Key architectural decisions likely documented'' @ [CHR 0x0A]) @
           (''- Development guidelines and processes defined'' @ [CHR 0x0A])
      else ([CHR 0x0A] @ ''**Note:** No key documentation files found. Project may lack comprehensive documentation.'' @ [CHR 0x0A]))"

subsection \<open>processPhase2\<close>

definition processPhase2 :: "string \<Rightarrow> string \<Rightarrow> string" where
  "processPhase2 projectPath structure =
     (''## Phase 2: Structural Scaffolding'' @ [CHR 0x0A, CHR 0x0A]) @
     (''**Project Structure:**'' @ [CHR 0x0A]) @
     [CHR 0x60, CHR 0x60, CHR 0x60, CHR 0x0A] @
     structure @
     [CHR 0x0A, CHR 0x60, CHR 0x60, CHR 0x60, CHR 0x0A, CHR 0x0A] @
     (''**Structural Insights:**'' @ [CHR 0x0A]) @
     (if includesStr structure ''src/''
      then (''- Standard source code organization with '' @ [CHR 0x60] @ ''src/'' @ [CHR 0x60] @ '' directory'' @ [CHR 0x0A]) else []) @
     (if includesStr structure ''package.json''
      then (''- Node.js/JavaScript project with npm package management'' @ [CHR 0x0A]) else []) @
     (if includesStr structure ''requirements.txt'' \<or> includesStr structure ''.py''
      then (''- Python project detected'' @ [CHR 0x0A]) else []) @
     (if includesStr structure ''Cargo.toml''
      then (''- Rust project detected'' @ [CHR 0x0A]) else []) @
     (if includesStr structure ''pom.xml'' \<or> includesStr structure ''build.gradle''
      then (''- Java project with build system'' @ [CHR 0x0A]) else [])"

subsection \<open>processPhase3\<close>

text \<open>
  The sections of the Analysis report, in the order in which the function appends them.
  \<open>localeString\<close> stands for \<^verbatim>\<open>Number.prototype.toLocaleString\<close>, whose output depends
  on the locale of the process.
\<close>

definition overviewSection :: "(nat \<Rightarrow> string) \<Rightarrow> CodeStructure \<Rightarrow> string" where
  "overviewSection localeString cs =
     (''**'' @ emoji_bar_chart @ '' Code Structure Overview:**'' @ [CHR 0x0A]) @
     ''- **Total Files:** '' @ showNat (totalFiles cs) @ [CHR 0x0A] @
     ''- **Total Lines of Code:** '' @ localeString (totalLines cs) @ [CHR 0x0A] @
     ''- **Total Size:** '' @ kilobytes1 (totalSize cs) @ ('' KB'' @ [CHR 0x0A]) @
     ''- **Complexity Level:** '' @
       (case complexity cs of Low \<Rightarrow> ''Low'' | Medium \<Rightarrow> ''Medium''
        | High \<Rightarrow> ''High'' | unknown \<Rightarrow> ''unknown'') @ [CHR 0x0A, CHR 0x0A]"

text \<open>
  \<^verbatim>\<open>Object.entries\<close> lists the keys that are array indices (canonical decimal numbers up
  to 4294967294) first, in ascending order, and then the other keys in the order of
  their creation.
\<close>

definition digitIndex :: "char \<Rightarrow> nat" where
  "digitIndex c = length (takeWhile (\<lambda>d. d \<noteq> c) digitChars)"

fun digitsLe :: "string \<Rightarrow> string \<Rightarrow> bool" where
  "digitsLe [] bs = True"
| "digitsLe (a # as) [] = False"
| "digitsLe (a # as) (b # bs) = (digitIndex a < digitIndex b \<or> (a = b \<and> digitsLe as bs))"

text \<open>The order of two canonical decimal numbers by their value.\<close>

definition numberLe :: "string \<Rightarrow> string \<Rightarrow> bool" where
  "numberLe a b = (length a < length b \<or> (length a = length b \<and> digitsLe a b))"

definition isArrayIndex :: "string \<Rightarrow> bool" where
  "isArrayIndex s =
     (s \<noteq> [] \<and> list_all (\<lambda>c. c \<in> set digitChars) s \<and> (s = ''0'' \<or> hd s \<noteq> CHR ''0'') \<and>
      numberLe s ''4294967294'')"

fun insertEntry :: "string \<times> 'a \<Rightarrow> (string \<times> 'a) list \<Rightarrow> (string \<times> 'a) list" where
  "insertEntry kv [] = [kv]"
| "insertEntry kv (x # xs) =
     (if numberLe (fst kv) (fst x) then kv # x # xs else x # insertEntry kv xs)"

definition objectEntries :: "(string \<times> 'a) list \<Rightarrow> (string \<times> 'a) list" where
  "objectEntries m =
     foldr insertEntry (filter (\<lambda>kv. isArrayIndex (fst kv)) m) [] @
     filter (\<lambda>kv. \<not> isArrayIndex (fst kv)) m"

definition filesByTypeSection :: "CodeStructure \<Rightarrow> string" where
  "filesByTypeSection cs =
     (''**'' @ emoji_folder @ '' Files by Type:**'' @ [CHR 0x0A]) @
     concat (map (\<lambda>(ext, stats).
                    ''- **'' @ ext @ ''**: '' @ showNat (ext_count stats) @ '' files, '' @
                    showNat (ext_totalLines stats) @ ('' lines'' @ [CHR 0x0A]))
                 (objectEntries (filesByExtension cs))) @
     [CHR 0x0A]"

definition largestFilesSection :: "CodeStructure \<Rightarrow> string" where
  "largestFilesSection cs =
     (if length (largestFiles cs) > 0
      then (''**'' @ emoji_clipboard @ '' Largest Files:**'' @ [CHR 0x0A]) @
           concat (map (\<lambda>file.
                          ''- **'' @ lf_path file @ ''**: '' @ showNat (lf_lines file) @
                          '' lines ('' @ kilobytes1 (lf_size file) @ ('' KB)'' @ [CHR 0x0A]))
                       (largestFiles cs)) @
           [CHR 0x0A]
      else [])"

definition depLines :: "nat \<Rightarrow> string \<Rightarrow> string list \<Rightarrow> string" where
  "depLines limit what deps =
     concat (map (\<lambda>dep. ''- '' @ dep @ [CHR 0x0A]) (take limit deps)) @
     (if length deps > limit
      then ''- ... and '' @ showNat (length deps - limit) @ '' more '' @ what @ [CHR 0x0A]
      else [])"

definition externalDeps :: "string list \<Rightarrow> string list" where
  "externalDeps deps = filter (\<lambda>dep. \<not> startsWith dep ''.'') deps"

definition internalDeps :: "string list \<Rightarrow> string list" where
  "internalDeps deps = filter (\<lambda>dep. startsWith dep ''.'') deps"

definition externalSubsection :: "string list \<Rightarrow> string" where
  "externalSubsection deps =
     (if length (externalDeps deps) > 0
      then (''*External Dependencies:*'' @ [CHR 0x0A]) @
           depLines 15 ''external dependencies'' (externalDeps deps)
      else [])"

definition internalSubsection :: "string list \<Rightarrow> string" where
  "internalSubsection deps =
     (if length (internalDeps deps) > 0
      then (''*Internal Imports:*'' @ [CHR 0x0A]) @
           depLines 10 ''internal imports'' (internalDeps deps)
      else [])"

definition dependenciesSection :: "string list \<Rightarrow> string" where
  "dependenciesSection deps =
     (''**'' @ emoji_link @ '' Dependencies & Imports:**'' @ [CHR 0x0A]) @
     (if length deps > 0
      then externalSubsection deps @ internalSubsection deps
      else (''- No external dependencies detected'' @ [CHR 0x0A])) @
     [CHR 0x0A]"

definition entryPointsSection :: "string list \<Rightarrow> string" where
  "entryPointsSection entries =
     (''**'' @ emoji_door @ '' Entry Points:**'' @ [CHR 0x0A]) @
     (if length entries > 0
      then concat (map (\<lambda>entry. ''- **'' @ entry @ (''**'' @ [CHR 0x0A])) entries)
      else (''- No clear entry points identified'' @ [CHR 0x0A])) @
     [CHR 0x0A]"

definition kindName :: "element_kind \<Rightarrow> string" where
  "kindName k =
     (case k of class_kind \<Rightarrow> ''class'' | function_kind \<Rightarrow> ''function''
      | arrow_function_kind \<Rightarrow> ''arrow_function'' | interface_kind \<Rightarrow> ''interface''
      | type_kind \<Rightarrow> ''type'')"

definition elementLine :: "CodeElement \<Rightarrow> string" where
  "elementLine element =
     ''- **'' @ ce_name element @ ''**'' @
     (if ce_file element \<noteq> [] then '' ('' @ ce_file element @ '')'' else []) @
     (if ce_isAsync element = Some True then '' [async]'' else []) @
     (if ce_isExported element = Some True then '' [exported]'' else []) @
     (case ce_methods element of
        None \<Rightarrow> []
      | Some methods \<Rightarrow>
          if length methods > 0
          then '' - Methods: '' @ joinWith '', '' (take 3 methods) @
               (if length methods > 3
                then '', +'' @ showNat (length methods - 3) @ '' more'' else [])
          else []) @
     [CHR 0x0A]"

text \<open>
  The \<^verbatim>\<open>reduce\<close> groups the elements by kind in an object; its entries come in the order
  in which the kinds first occurred.
\<close>

definition elementsByType :: "CodeElement list \<Rightarrow> (element_kind \<times> CodeElement list) list" where
  "elementsByType els =
     map (\<lambda>k. (k, filter (\<lambda>e. ce_type e = k) els)) (dedupe (map ce_type els))"

definition elementsSection :: "CodeElement list \<Rightarrow> string" where
  "elementsSection els =
     (''**'' @ emoji_gear @ '' Code Elements Detected:**'' @ [CHR 0x0A]) @
     (if length els > 0
      then concat (map (\<lambda>(k, elements).
                          ''*'' @ capitalize (kindName k) @ ''s ('' @ showNat (length elements) @
                          (''):*'' @ [CHR 0x0A]) @
                          concat (map elementLine (take 10 elements)) @
                          (if length elements > 10
                           then ''- ... and '' @ showNat (length elements - 10) @ '' more '' @
                                kindName k @ (''s'' @ [CHR 0x0A])
                           else []) @
                          [CHR 0x0A])
                       (elementsByType els))
      else (''- No code elements detected'' @ [CHR 0x0A, CHR 0x0A]))"

definition tagLines :: "string list \<Rightarrow> string" where
  "tagLines tags = concat (map (\<lambda>pattern. ''- '' @ pattern @ [CHR 0x0A]) (dedupe tags))"

definition architectureSection :: "string list \<Rightarrow> string" where
  "architectureSection tags =
     (''**'' @ emoji_crane @ '' Architectural Patterns:**'' @ [CHR 0x0A]) @
     (if length tags > 0 then tagLines tags
      else (''- No specific architectural patterns detected'' @ [CHR 0x0A])) @
     [CHR 0x0A]"

definition patternsSection :: "string list \<Rightarrow> string" where
  "patternsSection tags =
     (''**'' @ emoji_palette @ '' Programming Patterns:**'' @ [CHR 0x0A]) @
     (if length tags > 0 then tagLines tags
      else (''- No specific programming patterns detected'' @ [CHR 0x0A])) @
     [CHR 0x0A]"

definition fileDetail :: "FileContent \<Rightarrow> string" where
  "fileDetail file =
     (if fc_lines file > 50
      then ''*'' @ fc_path file @ ''* ('' @ showNat (fc_lines file) @ ('' lines):'' @ [CHR 0x0A]) @
           (let firstMeaningfulLines =
                  take 5 (filter (\<lambda>line. trim line \<noteq> [] \<and> \<not> startsWith (trim line) ''//'' \<and>
                                        \<not> startsWith (trim line) ''*'')
                                 (splitOn (CHR 0x0A) (fc_content file)))
            in (case firstMeaningfulLines of
                  [] \<Rightarrow> []
                | l1 # ls \<Rightarrow>
                    ''  Preview: '' @ trim l1 @ [CHR 0x0A] @
                    (case ls of [] \<Rightarrow> []
                     | l2 # ls2 \<Rightarrow> ''           '' @ trim l2 @ [CHR 0x0A]))) @
           [CHR 0x0A]
      else [])"

definition detailSection :: "FileContent list \<Rightarrow> string" where
  "detailSection files =
     (if length files > 0
      then (''**'' @ emoji_page @ '' Detailed File Analysis:**'' @ [CHR 0x0A]) @ concat (map fileDetail files)
      else [])"

text \<open>
  After a failed aggregation the field \<open>codeStructure\<close> is still the empty object, and
  reading \<^verbatim>\<open>codeStructure.totalLines.toLocaleString()\<close> throws a TypeError.
\<close>

definition processPhase3 ::
  "(nat \<Rightarrow> string) \<Rightarrow> string \<Rightarrow> CodeAnalysisResult \<Rightarrow> js_error + string" where
  "processPhase3 localeString projectPath codeAnalysis =
     (case codeStructure codeAnalysis of
        None \<Rightarrow> Inl (TypeError (''Cannot read properties of undefined (reading '' @ [CHR 0x27] @ ''toLocaleString'' @ [CHR 0x27] @ '')''))
      | Some cs \<Rightarrow>
          Inr ((''## Phase 3: In-Depth Code Analysis'' @ [CHR 0x0A, CHR 0x0A]) @
               overviewSection localeString cs @
               filesByTypeSection cs @
               largestFilesSection cs @
               dependenciesSection (dependencies codeAnalysis) @
               entryPointsSection (entryPoints codeAnalysis) @
               elementsSection (functionsAndClasses codeAnalysis) @
               architectureSection (architecture codeAnalysis) @
               patternsSection (patterns codeAnalysis) @
               detailSection (fileContents codeAnalysis)))"

subsection \<open>processPhase4\<close>

definition keyFindingLine :: "CodebaseAnalysis \<Rightarrow> string" where
  "keyFindingLine a = ''- **'' @ capitalize (ca_phase a) @ ('' Phase**: Completed successfully'' @ [CHR 0x0A])"

text \<open>\<^verbatim>\<open>analysisHistory.slice(-3)\<close>: the last three entries, or all when there are fewer.\<close>

definition lastThree :: "'a list \<Rightarrow> 'a list" where
  "lastThree xs = drop (length xs - 3) xs"

definition processPhase4 :: "string \<Rightarrow> CodebaseAnalysis list \<Rightarrow> string" where
  "processPhase4 projectPath analysisHistory =
     (''## Phase 4: Synthesis and Reporting'' @ [CHR 0x0A, CHR 0x0A]) @
     (''**Project Summary:**'' @ [CHR 0x0A]) @
     ''- **Project**: '' @ path_basename projectPath @ [CHR 0x0A] @
     ''- **Analysis Phases Completed**: '' @ showNat (length analysisHistory) @ [CHR 0x0A] @
     ([CHR 0x0A] @ ''**Key Findings:**'' @ [CHR 0x0A]) @
     concat (map keyFindingLine (lastThree analysisHistory)) @
     ([CHR 0x0A] @ ''**Recommendations for New Developers:**'' @ [CHR 0x0A]) @
     (''- Start by reviewing the key documentation files identified'' @ [CHR 0x0A]) @
     (''- Understand the project structure before diving into code'' @ [CHR 0x0A]) @
     (''- Focus on entry points to understand application flow'' @ [CHR 0x0A]) @
     (''- Pay attention to the architectural patterns in use'' @ [CHR 0x0A]) @
     ([CHR 0x0A] @ ''**Next Steps:**'' @ [CHR 0x0A]) @
     (''- Set up development environment according to project requirements'' @ [CHR 0x0A]) @
     (''- Run the application and explore its functionality'' @ [CHR 0x0A]) @
     (''- Identify areas for contribution or improvement'' @ [CHR 0x0A])"

subsection \<open>generateComprehensiveReport\<close>

text \<open>
  \<^verbatim>\<open>record?.findings.includes(text)\<close>: without a record the value is \<^verbatim>\<open>undefined\<close>, which
  every use treats as false.
\<close>

definition findingsInclude :: "CodebaseAnalysis option \<Rightarrow> string \<Rightarrow> bool" where
  "findingsInclude a text =
     (case a of None \<Rightarrow> False | Some r \<Rightarrow> includesStr (ca_findings r) text)"

definition findPhase :: "CodebaseAnalysis list \<Rightarrow> string \<Rightarrow> CodebaseAnalysis option" where
  "findPhase analysisHistory name = find (\<lambda>a. ca_phase a = name) analysisHistory"

definition hasKeyDocs :: "CodebaseAnalysis list \<Rightarrow> bool" where
  "hasKeyDocs analysisHistory =
     (let conceptualAnalysis = findPhase analysisHistory ''conceptual''
      in findingsInclude conceptualAnalysis ''Key Documents Found:'' \<and>
         \<not> findingsInclude conceptualAnalysis ''Key Documents Found: 0'')"

definition hasStructure :: "CodebaseAnalysis list \<Rightarrow> bool" where
  "hasStructure analysisHistory =
     (let structuralAnalysis = findPhase analysisHistory ''structural''
      in findingsInclude structuralAnalysis ''src/'' \<or>
         findingsInclude structuralAnalysis ''Standard source code organization'')"

definition projectTypeLine :: "CodebaseAnalysis list \<Rightarrow> string" where
  "projectTypeLine analysisHistory =
     (let structuralAnalysis = findPhase analysisHistory ''structural''
      in ''**Project Type:** '' @
         (if findingsInclude structuralAnalysis ''Node.js/JavaScript''
          then (''Node.js/TypeScript Application'' @ [CHR 0x0A])
          else if findingsInclude structuralAnalysis ''Python'' then (''Python Application'' @ [CHR 0x0A])
          else if findingsInclude structuralAnalysis ''Java'' then (''Java Application'' @ [CHR 0x0A])
          else if findingsInclude structuralAnalysis ''Rust'' then (''Rust Application'' @ [CHR 0x0A])
          else (''Multi-language or Unknown Type'' @ [CHR 0x0A])))"

definition documentationQualityLine :: "CodebaseAnalysis list \<Rightarrow> string" where
  "documentationQualityLine analysisHistory =
     ''**Documentation Quality:** '' @
     (if hasKeyDocs analysisHistory then (''Well Documented '' @ emoji_check @ [CHR 0x0A])
      else (''Needs Improvement '' @ emoji_warning @ [CHR 0x0A]))"

definition codeOrganizationLine :: "CodebaseAnalysis list \<Rightarrow> string" where
  "codeOrganizationLine analysisHistory =
     ''**Code Organization:** '' @
     (if hasStructure analysisHistory then (''Well Organized '' @ emoji_check @ [CHR 0x0A])
      else (''Could Be Improved '' @ emoji_warning @ [CHR 0x0A]))"

definition dependencyCount :: "CodebaseAnalysis list \<Rightarrow> nat" where
  "dependencyCount analysisHistory =
     (case findPhase analysisHistory ''analysis'' of
        None \<Rightarrow> 0
      | Some r \<Rightarrow> length (matchGlobal plainFlags (rxStr ''- '') (ca_findings r)))"

definition complexityLine :: "CodebaseAnalysis list \<Rightarrow> string" where
  "complexityLine analysisHistory =
     ''**Complexity Level:** '' @
     (if dependencyCount analysisHistory > 15 then (''High (Many Dependencies) '' @ emoji_red @ [CHR 0x0A])
      else if dependencyCount analysisHistory > 5 then (''Medium (Moderate Dependencies) '' @ emoji_yellow @ [CHR 0x0A])
      else (''Low (Few Dependencies) '' @ emoji_green @ [CHR 0x0A]))"

definition rx_entry_points :: rx where
  "rx_entry_points =
     rxSeq [rxStr ((''Entry Points:**'' @ [CHR 0x0A])), Cap 1 (LazyStar anychar), rxStr (([CHR 0x0A] @ ''**''))]"

definition entryPointsFound :: "CodebaseAnalysis list \<Rightarrow> bool" where
  "entryPointsFound analysisHistory =
     (case findPhase analysisHistory ''analysis'' of
        None \<Rightarrow> False
      | Some r \<Rightarrow>
          (case matchFirst plainFlags rx_entry_points (ca_findings r) of
             None \<Rightarrow> False
           | Some m \<Rightarrow> group 1 m \<noteq> [] \<and> \<not> includesStr (group 1 m) ''No clear entry points''))"

definition checklist :: "CodebaseAnalysis list \<Rightarrow> string" where
  "checklist analysisHistory =
     (let structuralAnalysis = findPhase analysisHistory ''structural''
      in (''### Quick Start Checklist:'' @ [CHR 0x0A]) @
         (''- [ ] Clone the repository'' @ [CHR 0x0A]) @
         (if findingsInclude structuralAnalysis ''package.json''
          then (''- [ ] Run '' @ [CHR 0x60] @ ''npm install'' @ [CHR 0x60] @ '' to install dependencies'' @ [CHR 0x0A]) @
               (''- [ ] Check '' @ [CHR 0x60] @ ''package.json'' @ [CHR 0x60] @ '' for available scripts'' @ [CHR 0x0A])
          else if findingsInclude structuralAnalysis ''requirements.txt''
          then (''- [ ] Run '' @ [CHR 0x60] @ ''pip install -r requirements.txt'' @ [CHR 0x60, CHR 0x0A])
          else if findingsInclude structuralAnalysis ''Cargo.toml''
          then (''- [ ] Run '' @ [CHR 0x60] @ ''cargo build'' @ [CHR 0x60] @ '' to compile'' @ [CHR 0x0A])
          else []) @
         (if entryPointsFound analysisHistory
          then (''- [ ] Start by examining the main entry points identified'' @ [CHR 0x0A]) else []) @
         (''- [ ] Read the key documentation files'' @ [CHR 0x0A]) @
         (''- [ ] Understand the project structure'' @ [CHR 0x0A]) @
         (''- [ ] Set up your development environment'' @ [CHR 0x0A]))"

definition healthIndicators :: "CodebaseAnalysis list \<Rightarrow> string" where
  "healthIndicators analysisHistory =
     (let codeAnalysis = findPhase analysisHistory ''analysis'';
          hasTests = findingsInclude codeAnalysis ''Testing'';
          hasAsync = findingsInclude codeAnalysis ''Async/Promises'';
          indicators =
            (if hasKeyDocs analysisHistory then [(emoji_check @ '' Good Documentation'')] else []) @
            (if hasStructure analysisHistory then [(emoji_check @ '' Organized Structure'')] else []) @
            (if hasTests then [(emoji_check @ '' Testing Framework'')] else []) @
            (if hasAsync then [(emoji_check @ '' Modern Async Patterns'')] else [])
      in concat (map (\<lambda>indicator. indicator @ [CHR 0x0A]) indicators) @
         (if \<not> hasKeyDocs analysisHistory then (emoji_warning @ '' Missing Key Documentation'' @ [CHR 0x0A]) else []) @
         (if \<not> hasStructure analysisHistory then (emoji_warning @ '' Unclear Project Organization'' @ [CHR 0x0A]) else []) @
         (if \<not> hasTests then (emoji_warning @ '' No Testing Framework Detected'' @ [CHR 0x0A]) else []))"

text \<open>
  The report. \<open>today\<close> is \<^verbatim>\<open>new Date().toISOString().split('T')[0]\<close>. The caller passes
  a fourth argument, the key documents, which this function does not declare and never
  reads.
\<close>

definition generateComprehensiveReport ::
  "string \<Rightarrow> string \<Rightarrow> string \<Rightarrow> CodebaseAnalysis list \<Rightarrow> string" where
  "generateComprehensiveReport today projectPath allPhaseFindings analysisHistory =
     (''# '' @ emoji_bar_chart @ '' COMPREHENSIVE CODEBASE ANALYSIS REPORT'' @ [CHR 0x0A, CHR 0x0A]) @
     ''**Project:** '' @ path_basename projectPath @ [CHR 0x0A] @
     ''**Analysis Date:** '' @ today @ [CHR 0x0A] @
     (''**Total Phases Completed:** 4'' @ [CHR 0x0A, CHR 0x0A]) @
     (''---'' @ [CHR 0x0A, CHR 0x0A]) @
     allPhaseFindings @
     (''## '' @ emoji_target @ '' EXECUTIVE SUMMARY'' @ [CHR 0x0A, CHR 0x0A]) @
     projectTypeLine analysisHistory @
     documentationQualityLine analysisHistory @
     codeOrganizationLine analysisHistory @
     complexityLine analysisHistory @
     ([CHR 0x0A] @ ''## '' @ emoji_rocket @ '' DEVELOPER ONBOARDING GUIDE'' @ [CHR 0x0A, CHR 0x0A]) @
     checklist analysisHistory @
     ([CHR 0x0A] @ ''## '' @ emoji_chart_up @ '' PROJECT HEALTH INDICATORS'' @ [CHR 0x0A, CHR 0x0A]) @
     healthIndicators analysisHistory @
     ([CHR 0x0A] @ ''## '' @ emoji_magnifier @ '' DETAILED FINDINGS SUMMARY'' @ [CHR 0x0A, CHR 0x0A]) @
     (''This comprehensive analysis examined your codebase through four systematic phases:'' @ [CHR 0x0A, CHR 0x0A]) @
     (''1. **Conceptual Understanding** - Analyzed documentation and project goals'' @ [CHR 0x0A]) @
     (''2. **Structural Scaffolding** - Mapped project organization and file structure'' @ [CHR 0x0A]) @
     (''3. **In-Depth Code Analysis** - Examined dependencies, patterns, and entry points'' @ [CHR 0x0A]) @
     (''4. **Synthesis & Reporting** - Compiled insights and recommendations'' @ [CHR 0x0A, CHR 0x0A]) @
     ''**Total Analysis Time:** '' @ showNat (length analysisHistory) @ ('' phases completed'' @ [CHR 0x0A]) @
     ''**Recommendation:** This codebase is '' @
     (if hasKeyDocs analysisHistory \<and> hasStructure analysisHistory
      then ''ready for development''
      else ''suitable for development with some improvements needed'') @ [CHR 0x0A, CHR 0x0A] @
     (''---'' @ [CHR 0x0A]) @
     (''*Analysis generated by Codebase Navigator v0.1.0*'' @ [CHR 0x0A])"

text \<open>Two example histories that differ only before their last three entries and in the findings.\<close>

definition historyRecord :: "string \<Rightarrow> string \<Rightarrow> CodebaseAnalysis" where
  "historyRecord phase findings =
     \<lparr> ca_projectPath = ''/proj'', ca_phase = phase, ca_findings = findings,
       ca_nextPhaseNeeded = (phase \<noteq> ''synthesis''),
       ca_timestamp = ''2025-01-01T00:00:00.000Z'' \<rparr>"

definition history_a :: "CodebaseAnalysis list" where
  "history_a =
     [historyRecord ''analysis'' ''first'', historyRecord ''conceptual'' ''one'',
      historyRecord ''structural'' ''two'', historyRecord ''analysis'' ''three'']"

definition history_b :: "CodebaseAnalysis list" where
  "history_b =
     [historyRecord ''synthesis'' ''other'', historyRecord ''conceptual'' ''uno'',
      historyRecord ''structural'' ''due'', historyRecord ''analysis'' ''tre'']"

section \<open>Pipeline Orchestrator (server.ts, CodebaseNavigatorServer)\<close>

text \<open>
  What a call reads from outside the program: the file system, the output of the
  directory-listing command for a path (\<^verbatim>\<open>getProjectStructure\<close> returns it, or its
  fallback text when the command fails), the locale's number format, and the clock
  (the ISO time stamp read when the history has \<open>n\<close> entries). Writing to the console
  (\<^verbatim>\<open>console.error\<close>, \<^verbatim>\<open>formatAnalysis\<close>) does not touch the reply or the history
  and is left out.
\<close>

record env =
  env_world :: fs_world
  env_structure :: "string \<Rightarrow> string"
  env_localeString :: "nat \<Rightarrow> string"
  env_now :: "nat \<Rightarrow> string"

text \<open>The arguments object of the tool call; a missing property is \<open>None\<close>.\<close>

record tool_input =
  in_projectPath :: "string option"
  in_phase :: "string option"

text \<open>
  The JSON text of the reply, as data: the failure object \<^verbatim>\<open>{error, status: 'failed'}\<close>
  or the result object of a phase or of the whole run.
\<close>

record phase_result =
  pr_phase :: string
  pr_projectPath :: string
  pr_repositoryRoot :: "string option"
  pr_providedPath :: "string option"
  pr_findings :: string
  pr_nextPhaseNeeded :: bool
  pr_analysisHistoryLength :: nat
  pr_suggestedNextPhase :: "string option"
  pr_completedPhases :: "string list option"

datatype payload = Failed string | Result phase_result

record envelope =
  reply :: payload
  isError :: bool

definition errorMessage :: "js_error \<Rightarrow> string" where
  "errorMessage e = (case e of Error m \<Rightarrow> m | FsError m \<Rightarrow> m | TypeError m \<Rightarrow> m)"

text \<open>The reply built in the \<^verbatim>\<open>catch\<close> block of \<^verbatim>\<open>processCodebaseAnalysis\<close>.\<close>

definition failureEnvelope :: "js_error \<Rightarrow> envelope" where
  "failureEnvelope e = \<lparr> reply = Failed (errorMessage e), isError = True \<rparr>"

definition phaseOrder :: "string list" where
  "phaseOrder = [''conceptual'', ''structural'', ''analysis'', ''synthesis'']"

fun indexOf :: "'a list \<Rightarrow> 'a \<Rightarrow> nat option" where
  "indexOf [] x = None"
| "indexOf (y # ys) x = (if x = y then Some 0 else map_option Suc (indexOf ys x))"

text \<open>
  \<^verbatim>\<open>indexOf\<close> answers -1 for a string that is not in the list, and then the element
  after it is the first one.
\<close>

definition getSuggestedNextPhase :: "string \<Rightarrow> string" where
  "getSuggestedNextPhase currentPhase =
     (case indexOf phaseOrder currentPhase of
        None \<Rightarrow> phaseOrder ! 0
      | Some currentIndex \<Rightarrow>
          if currentIndex < length phaseOrder - 1 then phaseOrder ! (currentIndex + 1)
          else ''complete'')"

text \<open>
  The \<^verbatim>\<open>switch\<close> of \<^verbatim>\<open>runSinglePhase\<close>: the findings and the flag
  \<^verbatim>\<open>nextPhaseNeeded\<close>, or the error thrown.
\<close>

definition singlePhaseFindings ::
  "env \<Rightarrow> CodebaseAnalysis list \<Rightarrow> string \<Rightarrow> string \<Rightarrow> js_error + (string \<times> bool)" where
  "singlePhaseFindings e analysisHistory projectPath phase =
     (if phase = ''conceptual'' then
        Inr (processPhase1 (env_world e) projectPath (findKeyDocs (env_world e) projectPath), True)
      else if phase = ''structural'' then
        Inr (processPhase2 projectPath (env_structure e projectPath), True)
      else if phase = ''analysis'' then
        (case processPhase3 (env_localeString e) projectPath
                (analyzeCodeFiles (env_world e) projectPath) of
           Inl err \<Rightarrow> Inl err
         | Inr findings \<Rightarrow> Inr (findings, True))
      else if phase = ''synthesis'' then
        Inr (processPhase4 projectPath analysisHistory, False)
      else Inl (Error (''Invalid phase: '' @ phase)))"

text \<open>
  \<^verbatim>\<open>runSinglePhase\<close> is an async function: its outcome is a promise that is either
  rejected with the error thrown (\<open>Inl\<close>) or fulfilled with the reply (\<open>Inr\<close>). The second
  component is the history after the call.
\<close>

definition runSinglePhase ::
  "env \<Rightarrow> CodebaseAnalysis list \<Rightarrow> string \<Rightarrow> string \<Rightarrow> string option \<Rightarrow> string option
     \<Rightarrow> (js_error + envelope) \<times> CodebaseAnalysis list" where
  "runSinglePhase e analysisHistory projectPath phase repositoryRoot providedPath =
     (case singlePhaseFindings e analysisHistory projectPath phase of
        Inl err \<Rightarrow> (Inl err, analysisHistory)
      | Inr (findings, nextPhaseNeeded) \<Rightarrow>
          (let analysis = \<lparr> ca_projectPath = projectPath, ca_phase = phase,
                            ca_findings = findings, ca_nextPhaseNeeded = nextPhaseNeeded,
                            ca_timestamp = env_now e (length analysisHistory) \<rparr>;
               history1 = analysisHistory @ [analysis]
           in (Inr \<lparr> reply = Result
                        \<lparr> pr_phase = phase, pr_projectPath = projectPath,
                          pr_repositoryRoot = repositoryRoot, pr_providedPath = providedPath,
                          pr_findings = findings, pr_nextPhaseNeeded = nextPhaseNeeded,
                          pr_analysisHistoryLength = length history1,
                          pr_suggestedNextPhase = Some (getSuggestedNextPhase phase),
                          pr_completedPhases = None \<rparr>,
                      isError = False \<rparr>,
               history1)))"

text \<open>
  The \<^verbatim>\<open>switch\<close> inside the loop over all phases; it has no default case, the findings
  stay empty there.
\<close>

definition loopPhaseFindings ::
  "env \<Rightarrow> CodebaseAnalysis list \<Rightarrow> string \<Rightarrow> string \<Rightarrow> js_error + string" where
  "loopPhaseFindings e analysisHistory projectPath phase =
     (if phase = ''conceptual'' then
        Inr (processPhase1 (env_world e) projectPath (findKeyDocs (env_world e) projectPath))
      else if phase = ''structural'' then
        Inr (processPhase2 projectPath (env_structure e projectPath))
      else if phase = ''analysis'' then
        processPhase3 (env_localeString e) projectPath (analyzeCodeFiles (env_world e) projectPath)
      else if phase = ''synthesis'' then
        Inr (processPhase4 projectPath analysisHistory)
      else Inr [])"

text \<open>
  The loop over all phases, with the history and the text collected so far. An error
  leaves the loop; the records pushed before it stay in the history.
\<close>

fun runAllPhases ::
  "env \<Rightarrow> string \<Rightarrow> string list \<Rightarrow> CodebaseAnalysis list \<Rightarrow> string
     \<Rightarrow> js_error option \<times> CodebaseAnalysis list \<times> string" where
  "runAllPhases e projectPath [] analysisHistory comprehensiveReport =
     (None, analysisHistory, comprehensiveReport)"
| "runAllPhases e projectPath (phase # phases) analysisHistory comprehensiveReport =
     (case loopPhaseFindings e analysisHistory projectPath phase of
        Inl err \<Rightarrow> (Some err, analysisHistory, comprehensiveReport)
      | Inr phaseFindings \<Rightarrow>
          runAllPhases e projectPath phases
            (analysisHistory @
               [\<lparr> ca_projectPath = projectPath, ca_phase = phase, ca_findings = phaseFindings,
                  ca_nextPhaseNeeded = (phase \<noteq> ''synthesis''),
                  ca_timestamp = env_now e (length analysisHistory) \<rparr>])
            (comprehensiveReport @ phaseFindings @ [CHR 0x0A, CHR 0x0A]))"

text \<open>
  \<^verbatim>\<open>processCodebaseAnalysis\<close>. Everything up to the dispatch runs inside the \<^verbatim>\<open>try\<close>
  block, so what is thrown there is turned into the failure reply. For a single phase
  the function returns the promise of \<^verbatim>\<open>runSinglePhase\<close> without awaiting it: the
  \<^verbatim>\<open>try\<close> block is left when the promise is returned, and the outcome of that promise,
  fulfilled or rejected, becomes the outcome of the call.
\<close>

definition processCodebaseAnalysis ::
  "env \<Rightarrow> CodebaseAnalysis list \<Rightarrow> tool_input option
     \<Rightarrow> (js_error + envelope) \<times> CodebaseAnalysis list" where
  "processCodebaseAnalysis e analysisHistory input =
     (case input of
        None \<Rightarrow>
          (Inr (failureEnvelope
                  (TypeError (''Cannot read properties of undefined (reading '' @ [CHR 0x27] @ ''projectPath'' @ [CHR 0x27] @ '')''))),
           analysisHistory)
      | Some d \<Rightarrow>
          (let requestedPhase = (case in_phase d of
                                   None \<Rightarrow> ''all''
                                 | Some p \<Rightarrow> if p = [] then ''all'' else p)
           in case in_projectPath d of
                None \<Rightarrow>
                  (Inr (failureEnvelope (Error ''Invalid or non-existent project path'')),
                   analysisHistory)
              | Some providedPath \<Rightarrow>
                  if providedPath = [] \<or>
                     \<not> existsPath (env_world e) providedPath
                  then (Inr (failureEnvelope (Error ''Invalid or non-existent project path'')),
                        analysisHistory)
                  else
                    (let repositoryRoot = findRepositoryRoot (env_world e) providedPath;
                         projectPath = repositoryRoot;
                         rootOpt = (if repositoryRoot \<noteq> providedPath
                                    then Some repositoryRoot else None);
                         providedOpt = (if repositoryRoot \<noteq> providedPath
                                        then Some providedPath else None)
                     in if requestedPhase \<noteq> ''all''
                        then runSinglePhase e analysisHistory projectPath requestedPhase
                               rootOpt providedOpt
                        else
                          (case runAllPhases e projectPath phaseOrder analysisHistory [] of
                             (Some err, history1, report) \<Rightarrow> (Inr (failureEnvelope err), history1)
                           | (None, history1, comprehensiveReport) \<Rightarrow>
                               (let today = hd (splitOn (CHR ''T'') (env_now e (length history1)));
                                    finalReport = generateComprehensiveReport today projectPath
                                                    comprehensiveReport history1
                                in (Inr \<lparr> reply = Result
                                             \<lparr> pr_phase = ''comprehensive'',
                                               pr_projectPath = projectPath,
                                               pr_repositoryRoot = rootOpt,
                                               pr_providedPath = providedOpt,
                                               pr_findings = finalReport,
                                               pr_nextPhaseNeeded = False,
                                               pr_analysisHistoryLength = length history1,
                                               pr_suggestedNextPhase = None,
                                               pr_completedPhases = Some phaseOrder \<rparr>,
                                           isError = False \<rparr>,
                                    history1))))))"

text \<open>An example environment around the project with one README.\<close>

definition env_docs :: env where
  "env_docs =
     \<lparr> env_world = world_docs,
       env_structure = (\<lambda>p. (''.'' @ [CHR 0x0A] @ ''|-- README.md'' @ [CHR 0x0A, CHR 0x60] @ ''-- docs'')),
       env_localeString = showNat,
       env_now = (\<lambda>n. ''2025-01-01T00:00:00.000Z'') \<rparr>"

text \<open>An example environment around an empty project directory without any marker.\<close>

definition world_bare :: fs_world where
  "world_bare = \<lparr> fsroot = Dir [(''work'', Dir [(''bare'', Dir [])])], cwd = [''work''] \<rparr>"

definition env_bare :: env where
  "env_bare =
     \<lparr> env_world = world_bare,
       env_structure = (\<lambda>p. (''.'' @ [CHR 0x0A, CHR 0x0A] @ ''0 directories, 0 files'' @ [CHR 0x0A])),
       env_localeString = showNat,
       env_now = (\<lambda>n. ''2025-01-01T00:00:00.000Z'') \<rparr>"

text \<open>The findings of a reply, empty for a failure or a rejection.\<close>

definition findingsOf :: "js_error + envelope \<Rightarrow> string" where
  "findingsOf outcome =
     (case outcome of
        Inl err \<Rightarrow> []
      | Inr reply_env \<Rightarrow> (case reply reply_env of Failed m \<Rightarrow> [] | Result r \<Rightarrow> pr_findings r))"

section \<open>Properties of the Structure Aggregator\<close>

lemma foldl_add_lines: "foldl (\<lambda>sum file. sum + fc_lines file) a fs = a + sum_list (map fc_lines fs)"
  by (induction fs arbitrary: a) auto

lemma sumLines_sum_list: "sumLines fs = sum_list (map fc_lines fs)"
  by (simp add: sumLines_def foldl_add_lines)

lemma foldl_add_fsize: "foldl (\<lambda>sum file. sum + fc_size file) a fs = a + sum_list (map fc_size fs)"
  by (induction fs arbitrary: a) auto

lemma sumSize_sum_list: "sumSize fs = sum_list (map fc_size fs)"
  by (simp add: sumSize_def foldl_add_fsize)

lemma totalLines_build: "totalLines (fst (buildCodeStructureMap fs)) = sum_list (map fc_lines fs)"
  by (simp add: buildCodeStructureMap_def Let_def sumLines_sum_list)

lemma complexity_build:
  "complexity (fst (buildCodeStructureMap fs)) = classify (sum_list (map fc_lines fs))"
  by (simp add: buildCodeStructureMap_def Let_def sumLines_sum_list)

text \<open>
  C1 (as stated, refuted): a FileRecord set totalling exactly 1000 lines is classified
  Low by the code, not Medium; the test for Medium is \<^verbatim>\<open>totalLines > 1000\<close>.
\<close>

theorem C1_counterexample_1000_is_Low:
  "sum_list (map fc_lines [blankFile ''a.ts'' 1000]) = 1000 \<and>
   complexity (fst (buildCodeStructureMap [blankFile ''a.ts'' 1000])) = Low \<and>
   complexity (fst (buildCodeStructureMap [blankFile ''a.ts'' 1000])) \<noteq> Medium"
  by (simp add: complexity_build classify_def blankFile_def)

text \<open>
  C1 (amended): the complexity tier is decided by the summed line count of the
  FileRecords: a total of at most 1000 is Low, a total from 1001 through 5000 is Medium,
  and a total above 5000 is High.
\<close>

theorem C1_complexity_boundaries:
  "(sum_list (map fc_lines fs) \<le> 1000 \<longrightarrow> complexity (fst (buildCodeStructureMap fs)) = Low) \<and>
   (1000 < sum_list (map fc_lines fs) \<and> sum_list (map fc_lines fs) \<le> 5000
      \<longrightarrow> complexity (fst (buildCodeStructureMap fs)) = Medium) \<and>
   (5000 < sum_list (map fc_lines fs) \<longrightarrow> complexity (fst (buildCodeStructureMap fs)) = High)"
  by (simp add: complexity_build classify_def)

theorem C1_complexity_boundaries_witness:
  "complexity (fst (buildCodeStructureMap [blankFile ''a.ts'' 500, blankFile ''b.ts'' 499])) = Low \<and>
   complexity (fst (buildCodeStructureMap [blankFile ''a.ts'' 1000, blankFile ''b.ts'' 1])) = Medium \<and>
   complexity (fst (buildCodeStructureMap [blankFile ''a.ts'' 5000])) = Medium \<and>
   complexity (fst (buildCodeStructureMap [blankFile ''a.ts'' 5000, blankFile ''b.ts'' 1])) = High"
  using C1_complexity_boundaries [of "[blankFile ''a.ts'' 500, blankFile ''b.ts'' 499]"]
        C1_complexity_boundaries [of "[blankFile ''a.ts'' 1000, blankFile ''b.ts'' 1]"]
        C1_complexity_boundaries [of "[blankFile ''a.ts'' 5000]"]
        C1_complexity_boundaries [of "[blankFile ''a.ts'' 5000, blankFile ''b.ts'' 1]"]
  by (simp add: blankFile_def)

lemma buildCodeStructureMap_keeps_elements:
  "mset (snd (buildCodeStructureMap fs)) = mset fs \<and>
   totalFiles (fst (buildCodeStructureMap fs)) = length fs \<and>
   totalLines (fst (buildCodeStructureMap fs)) = sum_list (map fc_lines fs) \<and>
   totalSize (fst (buildCodeStructureMap fs)) = sum_list (map fc_size fs)"
  by (simp add: buildCodeStructureMap_def sortByLinesDesc_def Let_def
        sumLines_sum_list sumSize_sum_list)

text \<open>
  C7 (the code falls short of the claim): the summary is computed from the input list
  alone, but the call does not leave the list as it was. The array is sorted in place
  before the five largest files are copied out of it: with a one-line file listed before
  a two-line file, the caller's array holds the two files in the opposite order after
  the call.
\<close>

theorem C7_input_list_reordered:
  "snd (buildCodeStructureMap [blankFile ''a.ts'' 1, blankFile ''b.ts'' 2])
     = [blankFile ''b.ts'' 2, blankFile ''a.ts'' 1] \<and>
   snd (buildCodeStructureMap [blankFile ''a.ts'' 1, blankFile ''b.ts'' 2])
     \<noteq> [blankFile ''a.ts'' 1, blankFile ''b.ts'' 2]"
  by (simp add: buildCodeStructureMap_def sortByLinesDesc_def blankFile_def Let_def)

section \<open>Properties of the Path Resolver\<close>

lemma walkUp_found: "d \<noteq> [] \<Longrightarrow> hasMarker w d \<Longrightarrow> walkUp w d = Some d"
  by (simp add: walkUp.simps rootPath_def)

lemma walkUp_parent: "\<not> hasMarker w (d @ [x]) \<Longrightarrow> walkUp w (d @ [x]) = walkUp w d"
  by (subst walkUp.simps) (simp add: rootPath_def path_dirname_def Let_def)

lemma walkUp_root: "walkUp w [] = None"
  by (simp add: walkUp.simps rootPath_def)

lemma set_tl_prefixes_snoc:
  "set (tl (prefixes (xs @ [x]))) = insert (xs @ [x]) (set (tl (prefixes xs)))"
  by (induction xs) auto

lemma walkUp_nearest:
  "d \<noteq> [] \<Longrightarrow> hasMarker w d \<Longrightarrow>
   \<forall>r \<in> set (tl (prefixes rest)). \<not> hasMarker w (d @ r) \<Longrightarrow>
   walkUp w (d @ rest) = Some d"
proof (induction rest rule: rev_induct)
  case Nil
  then show ?case by (simp add: walkUp_found)
next
  case (snoc x xs)
  from snoc.prems(3) have a: "\<not> hasMarker w ((d @ xs) @ [x])"
    and b: "\<forall>r \<in> set (tl (prefixes xs)). \<not> hasMarker w (d @ r)"
    by (simp_all add: set_tl_prefixes_snoc)
  have "walkUp w ((d @ xs) @ [x]) = walkUp w (d @ xs)"
    using a by (rule walkUp_parent)
  with snoc.IH [OF snoc.prems(1,2) b] show ?case by simp
qed

lemma walkUp_none:
  "\<forall>d \<in> set (tl (prefixes p)). \<not> hasMarker w d \<Longrightarrow> walkUp w p = None"
proof (induction p rule: rev_induct)
  case Nil
  then show ?case by (simp add: walkUp_root)
next
  case (snoc x xs)
  then show ?case by (simp add: set_tl_prefixes_snoc walkUp_parent)
qed

lemma git_hasMarker: "existsSync w (path_join d ''.git'') \<Longrightarrow> hasMarker w d"
  by (simp add: hasMarker_def repositoryMarkers_def)

lemmas fs_eval_defs =
  path_resolve_def normalizeStep_def rootPath_def hasMarker_def existsSync_def
  repositoryMarkers_def path_join_def path_dirname_def render_def

text \<open>
  C2 (as stated, refuted): the file system root contains \<^verbatim>\<open>.git\<close>, its proper
  descendant \<^verbatim>\<open>/work\<close> contains no marker and nothing lies between them, yet resolving
  from \<^verbatim>\<open>/work\<close> returns the input \<^verbatim>\<open>/work\<close> and not the root: the loop is left
  before the root directory is tested.
\<close>

theorem C2_counterexample_git_at_root:
  "existsSync world_git_at_root (path_join rootPath ''.git'') \<and>
   path_resolve world_git_at_root ''/work'' = rootPath @ [''work''] \<and>
   \<not> hasMarker world_git_at_root (rootPath @ [''work'']) \<and>
   findRepositoryRoot world_git_at_root ''/work'' = ''/work'' \<and>
   findRepositoryRoot world_git_at_root ''/work'' \<noteq> render rootPath"
  by (simp add: findRepositoryRoot_def walkUp.simps world_git_at_root_def fs_eval_defs)

text \<open>
  C2 (amended): repository-root resolution walks upward from the resolved start path and
  returns the nearest ancestor directory (the start directory included, the file system
  root excluded) that contains at least one of the fixed markers, whatever the markers in
  farther ancestors are. In particular, for every directory \<open>g\<close> other than the file
  system root that contains \<^verbatim>\<open>.git\<close>, resolving from any descendant of \<open>g\<close> returns
  \<open>g\<close> when no directory below \<open>g\<close> on the way contains a marker. When no ancestor below
  the file system root contains a marker, the original input is returned unchanged. The
  operation is total: there is no failing outcome.
\<close>

theorem C2_nearest_marked_directory:
  "(path_resolve w startPath = d @ rest \<and> d \<noteq> rootPath \<and> hasMarker w d \<and>
      (\<forall>r \<in> set (tl (prefixes rest)). \<not> hasMarker w (d @ r))
     \<longrightarrow> findRepositoryRoot w startPath = render d) \<and>
   (path_resolve w startPath = g @ rest' \<and> g \<noteq> rootPath \<and>
      existsSync w (path_join g ''.git'') \<and>
      (\<forall>r \<in> set (tl (prefixes rest')). \<not> hasMarker w (g @ r))
     \<longrightarrow> findRepositoryRoot w startPath = render g) \<and>
   ((\<forall>a \<in> set (tl (prefixes (path_resolve w startPath))). \<not> hasMarker w a)
     \<longrightarrow> findRepositoryRoot w startPath = startPath)"
  by (auto simp: findRepositoryRoot_def rootPath_def walkUp_nearest walkUp_none git_hasMarker)

theorem C2_nearest_marked_directory_witness:
  "findRepositoryRoot world_repo ''src/a.ts'' = ''/repo'' \<and>
   findRepositoryRoot world_plain ''./x'' = ''./x''"
proof -
  have h1: "path_resolve world_repo ''src/a.ts'' = [''repo''] @ [''src'', ''a.ts''] \<and>
            [''repo''] \<noteq> rootPath \<and> hasMarker world_repo [''repo''] \<and>
            existsSync world_repo (path_join [''repo''] ''.git'') \<and>
            (\<forall>r \<in> set (tl (prefixes [''src'', ''a.ts''])). \<not> hasMarker world_repo ([''repo''] @ r))"
    by (simp add: world_repo_def fs_eval_defs)
  have h2: "\<forall>a \<in> set (tl (prefixes (path_resolve world_plain ''./x''))).
              \<not> hasMarker world_plain a"
    by (simp add: world_plain_def fs_eval_defs)
  have r1: "findRepositoryRoot world_repo ''src/a.ts'' = render [''repo'']"
    using C2_nearest_marked_directory
            [of world_repo "''src/a.ts''" "[''repo'']" "[''src'', ''a.ts'']"
                "[''repo'']" "[''src'', ''a.ts'']"] h1
    by blast
  have r2: "findRepositoryRoot world_plain ''./x'' = ''./x''"
    using C2_nearest_marked_directory [of world_plain "''./x''" "[]" "[]" "[]" "[]"] h2
    by blast
  from r1 r2 show ?thesis by (simp add: render_def)
qed

section \<open>Properties of dependency extraction\<close>

lemma left_pad_examples:
  "extractImports src_import_left_pad ''.js'' = [''left-pad'']"
  "extractImports src_import_left_pad ''.ts'' = [''left-pad'']"
  "extractImports src_import_left_pad ''.tsx'' = [''left-pad'']"
  "extractImports src_import_left_pad ''.jsx'' = [''left-pad'']"
  by code_simp+

lemma require_examples:
  "extractImports src_require_pkg ''.js'' = [''pkg'']"
  "extractImports src_require_pkg ''.ts'' = [''pkg'']"
  "extractImports src_require_pkg ''.tsx'' = [''pkg'']"
  "extractImports src_require_pkg ''.jsx'' = [''pkg'']"
  by code_simp+

lemma local_examples:
  "extractImports src_import_local ''.js'' = []"
  "extractImports src_import_local ''.ts'' = []"
  "extractImports src_import_local ''.tsx'' = []"
  "extractImports src_import_local ''.jsx'' = []"
  by code_simp+

lemma extractImports_no_dot:
  "d \<in> set (extractImports content ext) \<Longrightarrow> d \<noteq> [] \<and> hd d \<noteq> CHR ''.''"
  by (cases d) (auto simp: extractImports_def)

lemma extractImports_unsupported:
  "ext \<notin> set supportedExtensions \<Longrightarrow> extractImports content ext = []"
  by (simp add: extractImports_def rawImports_def supportedExtensions_def)

text \<open>
  C4: for the JavaScript/TypeScript extensions, dependency extraction yields
  \<open>left-pad\<close> from \<^verbatim>\<open>import { x } from "left-pad"\<close>, \<open>pkg\<close> from \<^verbatim>\<open>require("pkg")\<close>
  and nothing from \<^verbatim>\<open>import x from "./local"\<close>. For every content and extension, no
  extracted dependency starts with a dot, and an extension outside the supported set
  yields the empty list.
\<close>

theorem C4_extractImports:
  "(\<forall>e \<in> set [''.js'', ''.ts'', ''.tsx'', ''.jsx''].
      extractImports src_import_left_pad e = [''left-pad''] \<and>
      extractImports src_require_pkg e = [''pkg''] \<and>
      extractImports src_import_local e = []) \<and>
   (\<forall>d \<in> set (extractImports content ext). d \<noteq> [] \<and> hd d \<noteq> CHR ''.'') \<and>
   (ext \<notin> set supportedExtensions \<longrightarrow> extractImports content ext = [])"
  using extractImports_no_dot [of _ content ext] extractImports_unsupported [of ext content]
  by (simp add: left_pad_examples require_examples local_examples)

theorem C4_extractImports_witness:
  "extractImports src_import_left_pad ''.ts'' = [''left-pad''] \<and>
   hd ''left-pad'' \<noteq> CHR ''.'' \<and>
   ''.txt'' \<notin> set supportedExtensions \<and>
   extractImports src_import_left_pad ''.txt'' = []"
proof -
  have a: "''.ts'' \<in> set [''.js'', ''.ts'', ''.tsx'', ''.jsx'']" by simp
  have b: "''.txt'' \<notin> set supportedExtensions" by (simp add: supportedExtensions_def)
  have c: "extractImports src_import_left_pad ''.ts'' = [''left-pad'']"
    using C4_extractImports [of src_import_left_pad "''.ts''"] a by blast
  have d: "\<forall>d \<in> set (extractImports src_import_left_pad ''.ts''). d \<noteq> [] \<and> hd d \<noteq> CHR ''.''"
    using C4_extractImports [of src_import_left_pad "''.ts''"] by blast
  have e: "extractImports src_import_left_pad ''.txt'' = []"
    using C4_extractImports [of src_import_left_pad "''.txt''"] b by blast
  from d have "hd ''left-pad'' \<noteq> CHR ''.''" unfolding c by simp
  with b c e show ?thesis by blast
qed

section \<open>Properties of the Document Locator\<close>

text \<open>
  A regular file whose name does not end in lower-case \<^verbatim>\<open>.md\<close> is passed over before
  any name pattern is tried.
\<close>

lemma md_gate_before_patterns:
  "isFile node \<Longrightarrow> \<not> endsWith item ''.md'' \<Longrightarrow>
   scanItems dir ((item, node) # others) depth keyDocs = scanItems dir others depth keyDocs"
  by (cases node) (simp_all add: Let_def)

text \<open>
  C3 (the code falls short of the claim): the ten name patterns all carry the flag
  \<^verbatim>\<open>i\<close> and accept \<^verbatim>\<open>readme.MD\<close>, but the test \<^verbatim>\<open>item.endsWith('.md')\<close> made before
  them compares the extension with case, so the file \<^verbatim>\<open>readme.MD\<close> is not collected.
  \<^verbatim>\<open>README.md\<close> directly below the root is collected; a \<^verbatim>\<open>README.md\<close> in a directory
  ten levels below the root is collected, and one eleven levels below is not.
\<close>

theorem C3_upper_case_extension_not_collected:
  "matchesKeyPattern ''readme.MD'' \<and>
   \<not> endsWith ''readme.MD'' ''.md'' \<and>
   findKeyDocs world_docs ''/proj'' = [''/proj/README.md'', ''/proj/docs/Design.md''] \<and>
   ''/proj/readme.MD'' \<notin> set (findKeyDocs world_docs ''/proj'') \<and>
   findKeyDocs (world_deep 10) ''/proj'' = [''/proj/d/d/d/d/d/d/d/d/d/d/README.md''] \<and>
   findKeyDocs (world_deep 11) ''/proj'' = []"
  by code_simp

section \<open>Properties of the per-run aggregation\<close>

lemma dedupe_step_inv:
  "distinct acc \<Longrightarrow>
   distinct (foldl (\<lambda>seen x. if x \<in> set seen then seen else seen @ [x]) acc xs) \<and>
   set (foldl (\<lambda>seen x. if x \<in> set seen then seen else seen @ [x]) acc xs) = set acc \<union> set xs"
  by (induction xs arbitrary: acc) auto

lemma distinct_dedupe: "distinct (dedupe xs)"
  using dedupe_step_inv [of "[]" xs] by (simp add: dedupe_def)

lemma set_dedupe: "set (dedupe xs) = set xs"
  using dedupe_step_inv [of "[]" xs] by (simp add: dedupe_def)

lemma analyzeLoop_readable:
  "\<forall>p \<in> set files. readable w p \<Longrightarrow> analyzeLoop w pp files a = (False, analyzeAll w pp files a)"
proof (induction files arbitrary: a)
  case Nil
  then show ?case by (simp add: analyzeAll_def)
next
  case (Cons p ps)
  from Cons.prems obtain c where c: "readFileSync w p = Inr c"
    by (auto simp: readable_def split: sum.splits)
  from Cons.prems have "\<forall>q \<in> set ps. readable w q" by simp
  from Cons.IH [OF this] c show ?case
    by (simp add: analyzeAll_def contentOf_def)
qed

lemma analyzeAll_functionsAndClasses:
  "functionsAndClasses (analyzeAll w pp files a) =
     functionsAndClasses a @
     concat (map (\<lambda>p. extractCodeElements (contentOf w p) (path_relative w pp p)) files)"
  unfolding analyzeAll_def
  by (induction files arbitrary: a) (simp_all add: analyzeFile_def Let_def)

lemma analyzeAll_dependencies:
  "dependencies (analyzeAll w pp files a) =
     dependencies a @
     concat (map (\<lambda>p. extractImports (contentOf w p) (path_extname p)) files)"
  unfolding analyzeAll_def
  by (induction files arbitrary: a) (simp_all add: analyzeFile_def Let_def)

lemma analyzeCodeFiles_readable:
  assumes "\<forall>p \<in> set (findCodeFiles w pp). readable w p"
  shows "dependencies (analyzeCodeFiles w pp) =
           dedupe (dependencies (analyzeAll w pp (findCodeFiles w pp) emptyAnalysis))"
    and "entryPoints (analyzeCodeFiles w pp) =
           dedupe (entryPoints (analyzeAll w pp (findCodeFiles w pp) emptyAnalysis))"
    and "patterns (analyzeCodeFiles w pp) =
           dedupe (patterns (analyzeAll w pp (findCodeFiles w pp) emptyAnalysis))"
    and "architecture (analyzeCodeFiles w pp) =
           dedupe (architecture (analyzeAll w pp (findCodeFiles w pp) emptyAnalysis))"
    and "functionsAndClasses (analyzeCodeFiles w pp) =
           functionsAndClasses (analyzeAll w pp (findCodeFiles w pp) emptyAnalysis)"
  using analyzeLoop_readable [OF assms, of pp emptyAnalysis]
  by (simp_all add: analyzeCodeFiles_def Let_def split: prod.splits)

lemma analyzeFile_codeStructure:
  "codeStructure (analyzeFile w pp p c a) = codeStructure a"
  by (simp add: analyzeFile_def Let_def)

lemma analyzeLoop_codeStructure:
  "codeStructure (snd (analyzeLoop w pp files a)) = codeStructure a"
  by (induction files arbitrary: a) (auto simp: analyzeFile_codeStructure split: sum.splits)

lemma analyzeLoop_unreadable:
  "\<exists>p \<in> set files. \<not> readable w p \<Longrightarrow> fst (analyzeLoop w pp files a)"
  by (induction files arbitrary: a) (auto simp: readable_def split: sum.splits)

text \<open>
  The aggregation step is reached exactly when every code file found was read, and
  exactly then the result carries a structure map.
\<close>

lemma aggregation_reached_iff:
  "codeStructure (analyzeCodeFiles w pp) \<noteq> None \<longleftrightarrow>
   (\<forall>p \<in> set (findCodeFiles w pp). readable w p)"
proof
  assume built: "codeStructure (analyzeCodeFiles w pp) \<noteq> None"
  show "\<forall>p \<in> set (findCodeFiles w pp). readable w p"
  proof (rule ccontr)
    assume "\<not> (\<forall>p \<in> set (findCodeFiles w pp). readable w p)"
    then have "fst (analyzeLoop w pp (findCodeFiles w pp) emptyAnalysis)"
      using analyzeLoop_unreadable [of "findCodeFiles w pp" w pp emptyAnalysis] by blast
    then have "codeStructure (analyzeCodeFiles w pp) =
                 codeStructure (snd (analyzeLoop w pp (findCodeFiles w pp) emptyAnalysis))"
      by (cases "analyzeLoop w pp (findCodeFiles w pp) emptyAnalysis")
         (simp add: analyzeCodeFiles_def Let_def)
    with built show False
      by (simp add: analyzeLoop_codeStructure emptyAnalysis_def)
  qed
next
  assume "\<forall>p \<in> set (findCodeFiles w pp). readable w p"
  from analyzeLoop_readable [OF this, of pp emptyAnalysis]
  show "codeStructure (analyzeCodeFiles w pp) \<noteq> None"
    by (simp add: analyzeCodeFiles_def Let_def split: prod.splits)
qed

text \<open>
  C6: when the run reaches the aggregation step (every code file found was read), the
  dependency, entry-point, pattern and architecture lists of the result have no
  duplicates and hold exactly the dependencies extracted from the files, while the list
  of code elements is the concatenation, file by file and match by match, of what the
  element extraction returned: equal elements are all kept.
\<close>

theorem C6_aggregation_dedupes_tags_not_elements:
  "(\<forall>p \<in> set (findCodeFiles w pp). readable w p) \<longrightarrow>
     distinct (dependencies (analyzeCodeFiles w pp)) \<and>
     distinct (entryPoints (analyzeCodeFiles w pp)) \<and>
     distinct (patterns (analyzeCodeFiles w pp)) \<and>
     distinct (architecture (analyzeCodeFiles w pp)) \<and>
     set (dependencies (analyzeCodeFiles w pp)) =
       (\<Union>p \<in> set (findCodeFiles w pp). set (extractImports (contentOf w p) (path_extname p))) \<and>
     functionsAndClasses (analyzeCodeFiles w pp) =
       concat (map (\<lambda>p. extractCodeElements (contentOf w p) (path_relative w pp p))
                   (findCodeFiles w pp))"
  by (auto simp: analyzeCodeFiles_readable distinct_dedupe set_dedupe analyzeAll_dependencies
        analyzeAll_functionsAndClasses emptyAnalysis_def)

lemma files_app:
  "findCodeFiles world_app ''/app'' = [''/app/package.json'', ''/app/a.js'', ''/app/b.js'']"
  by code_simp

lemma readable_app: "\<forall>p \<in> set (findCodeFiles world_app ''/app''). readable world_app p"
  unfolding files_app by code_simp

lemma elements_app:
  "map ce_name
     (concat (map (\<lambda>p. extractCodeElements (contentOf world_app p)
                                            (path_relative world_app ''/app'' p))
                  [''/app/package.json'', ''/app/a.js'', ''/app/b.js'']))
   = [''start'', ''start'']"
  by code_simp

lemma elements_app_equal:
  "\<not> distinct
     (concat (map (\<lambda>p. extractCodeElements (contentOf world_app p)
                                            (path_relative world_app ''/app'' p))
                  [''/app/package.json'', ''/app/a.js'', ''/app/b.js'']))"
  by code_simp

lemma imports_app:
  "(\<Union>p \<in> set [''/app/package.json'', ''/app/a.js'', ''/app/b.js''].
      set (extractImports (contentOf world_app p) (path_extname p))) = {''express''}"
  by code_simp

theorem C6_aggregation_dedupes_tags_not_elements_witness:
  "distinct (dependencies (analyzeCodeFiles world_app ''/app'')) \<and>
   set (dependencies (analyzeCodeFiles world_app ''/app'')) = {''express''} \<and>
   map ce_name (functionsAndClasses (analyzeCodeFiles world_app ''/app'')) = [''start'', ''start''] \<and>
   \<not> distinct (functionsAndClasses (analyzeCodeFiles world_app ''/app''))"
  using C6_aggregation_dedupes_tags_not_elements [of world_app "''/app''"] readable_app
        elements_app elements_app_equal imports_app
  unfolding files_app by simp

section \<open>Properties of the Phase Report Synthesizer\<close>

lemma startsWith_iff: "startsWith s p \<longleftrightarrow> (\<exists>b. s = p @ b)"
  by (induction s p rule: startsWith.induct) auto

lemma includesStr_iff: "includesStr s p \<longleftrightarrow> (\<exists>a b. s = a @ p @ b)"
proof (induction s)
  case Nil
  then show ?case by auto
next
  case (Cons x xs)
  show ?case
  proof
    assume "includesStr (x # xs) p"
    then consider "startsWith (x # xs) p" | "includesStr xs p" by auto
    then show "\<exists>a b. x # xs = a @ p @ b"
    proof cases
      case 1
      then obtain b where "x # xs = p @ b" by (auto simp: startsWith_iff)
      then have "x # xs = [] @ p @ b" by simp
      then show ?thesis by blast
    next
      case 2
      with Cons.IH obtain a b where "xs = a @ p @ b" by blast
      then have "x # xs = (x # a) @ p @ b" by simp
      then show ?thesis by blast
    qed
  next
    assume "\<exists>a b. x # xs = a @ p @ b"
    then obtain a b where ab: "x # xs = a @ p @ b" by blast
    show "includesStr (x # xs) p"
    proof (cases a)
      case Nil
      with ab have "startsWith (x # xs) p" by (auto simp: startsWith_iff)
      then show ?thesis by simp
    next
      case (Cons y ys)
      with ab have "xs = ys @ p @ b" by simp
      with Cons.IH have "includesStr xs p" by blast
      then show ?thesis by simp
    qed
  qed
qed

lemma includesStr_mid: "includesStr (a @ p @ b) p"
  by (auto simp: includesStr_iff)

lemma includesStr_appendI2: "includesStr t p \<Longrightarrow> includesStr (s @ t) p"
  unfolding includesStr_iff by (metis append.assoc)

lemma includesStr_prefix: "includesStr (p @ t) p"
  using includesStr_mid [of "[]" p t] by simp

lemma includesStr_prefix2: "includesStr (a @ b @ t) (a @ b)"
  using includesStr_prefix [of "a @ b" t] by simp

lemma includesStr_shorter: "includesStr s (p @ q) \<Longrightarrow> includesStr s p"
  unfolding includesStr_iff by (metis append.assoc)

lemma includesStr_refl: "includesStr p p"
  using includesStr_mid [of "[]" p "[]"] by simp

lemma includesStr_sub: "includesStr s (u @ p @ v) \<Longrightarrow> includesStr s p"
proof -
  assume "includesStr s (u @ p @ v)"
  then obtain a b where "s = a @ (u @ p @ v) @ b" by (auto simp: includesStr_iff)
  then have "s = (a @ u) @ p @ (v @ b)" by simp
  then show ?thesis using includesStr_mid by metis
qed

lemma includesStr_prefixchunk: "includesStr ((p @ u) @ t) p"
  using includesStr_mid [of "[]" p "u @ t"] by simp

lemma includesStr_midchunk: "includesStr ((u @ p @ v) @ t) p"
  using includesStr_mid [of u p "v @ t"] by simp

lemma includesStr_prefix3: "includesStr (a @ b @ c @ t) (a @ b @ c)"
  using includesStr_mid [of "[]" "a @ b @ c" t] by simp

lemma includesStr_concat_map: "a \<in> set xs \<Longrightarrow> includesStr (concat (map f xs)) (f a)"
proof -
  assume "a \<in> set xs"
  then obtain ys zs where "xs = ys @ a # zs" by (auto simp: in_set_conv_decomp)
  then have "concat (map f xs) = concat (map f ys) @ f a @ concat (map f zs)" by simp
  then show ?thesis using includesStr_mid by metis
qed

subsection \<open>The internal-imports subsection\<close>

lemma analyzeFile_deps_no_dot:
  "\<forall>d \<in> set (dependencies a). \<not> startsWith d ''.'' \<Longrightarrow>
   \<forall>d \<in> set (dependencies (analyzeFile w pp p c a)). \<not> startsWith d ''.''"
  by (auto simp: analyzeFile_def Let_def extractImports_def)

lemma analyzeLoop_deps_no_dot:
  "\<forall>d \<in> set (dependencies a). \<not> startsWith d ''.'' \<Longrightarrow>
   \<forall>d \<in> set (dependencies (snd (analyzeLoop w pp files a))). \<not> startsWith d ''.''"
proof (induction files arbitrary: a)
  case Nil
  then show ?case by simp
next
  case (Cons p ps)
  show ?case
  proof (cases "readFileSync w p")
    case (Inl e)
    with Cons.prems show ?thesis by simp
  next
    case (Inr c)
    with Cons.IH [OF analyzeFile_deps_no_dot [OF Cons.prems, of w pp p c]]
    show ?thesis by simp
  qed
qed

lemma analyzeCodeFiles_deps_no_dot:
  "\<forall>d \<in> set (dependencies (analyzeCodeFiles w pp)). \<not> startsWith d ''.''"
proof -
  have e: "\<forall>d \<in> set (dependencies emptyAnalysis). \<not> startsWith d ''.''"
    by (simp add: emptyAnalysis_def)
  from analyzeLoop_deps_no_dot [OF e, of w pp "findCodeFiles w pp"]
  show ?thesis
    by (auto simp: analyzeCodeFiles_def Let_def set_dedupe split: prod.splits)
qed

lemma deps_app:
  "dependencies (analyzeCodeFiles world_app ''/app'') = dedupe [''express'', ''express'']"
proof -
  have "concat (map (\<lambda>p. extractImports (contentOf world_app p) (path_extname p))
                    [''/app/package.json'', ''/app/a.js'', ''/app/b.js''])
        = [''express'', ''express'']"
    by code_simp
  then show ?thesis
    using analyzeCodeFiles_readable(1) [OF readable_app]
    by (simp add: files_app analyzeAll_dependencies emptyAnalysis_def)
qed

text \<open>
  C10: for every file system and project path, the dependency list of the aggregation
  result has no entry that starts with a dot, whether the aggregation completed or not;
  so the renderer's partition of internal imports is empty, all dependencies are in the
  external partition, and the block that renders the heading \<^verbatim>\<open>*Internal Imports:*\<close>
  and its entries contributes nothing to the Analysis report.
\<close>

theorem C10_internal_imports_never_rendered:
  "internalDeps (dependencies (analyzeCodeFiles w pp)) = [] \<and>
   externalDeps (dependencies (analyzeCodeFiles w pp)) = dependencies (analyzeCodeFiles w pp) \<and>
   internalSubsection (dependencies (analyzeCodeFiles w pp)) = []"
proof -
  have a: "internalDeps (dependencies (analyzeCodeFiles w pp)) = []"
    using analyzeCodeFiles_deps_no_dot [of w pp] by (simp add: internalDeps_def filter_empty_conv)
  have b: "externalDeps (dependencies (analyzeCodeFiles w pp)) = dependencies (analyzeCodeFiles w pp)"
    using analyzeCodeFiles_deps_no_dot [of w pp] by (simp add: externalDeps_def filter_id_conv)
  from a b show ?thesis by (simp add: internalSubsection_def)
qed

theorem C10_internal_imports_never_rendered_witness:
  "dependencies (analyzeCodeFiles world_app ''/app'') = [''express''] \<and>
   internalDeps [''express''] = [] \<and>
   externalDeps [''express''] = [''express''] \<and>
   internalSubsection [''express''] = []"
proof -
  have d: "dependencies (analyzeCodeFiles world_app ''/app'') = [''express'']"
    unfolding deps_app by (simp add: dedupe_def)
  from C10_internal_imports_never_rendered [of world_app "''/app''"] show ?thesis
    unfolding d using d by simp
qed

subsection \<open>Synthesis and the comprehensive report on any history\<close>

lemma showNat_digit: "n < 10 \<Longrightarrow> showNat n = [digitChars ! n]"
  by (subst showNat.simps) simp

lemma showNat_0: "showNat 0 = ''0''"
  by (simp add: showNat_digit digitChars_def)

lemma length_lastThree: "length (lastThree xs) \<le> 3"
  by (simp add: lastThree_def)

lemma keyFindingLines_phases:
  "map ca_phase xs = map ca_phase ys \<Longrightarrow> map keyFindingLine xs = map keyFindingLine ys"
proof (induction xs arbitrary: ys)
  case Nil
  then show ?case by simp
next
  case (Cons x xs)
  then obtain y ys' where ys: "ys = y # ys'" by (cases ys) auto
  with Cons.prems have "ca_phase x = ca_phase y" and "map ca_phase xs = map ca_phase ys'"
    by simp_all
  with Cons.IH [of ys'] ys show ?case by (simp add: keyFindingLine_def)
qed

lemma processPhase4_reads_last_three:
  assumes "length h = length h'"
    and "map ca_phase (lastThree h) = map ca_phase (lastThree h')"
  shows "processPhase4 p h = processPhase4 p h'"
proof -
  from assms(2) have "map keyFindingLine (lastThree h) = map keyFindingLine (lastThree h')"
    by (rule keyFindingLines_phases)
  then show ?thesis
    unfolding processPhase4_def using assms(1) by presburger
qed

lemma findPhase_empty: "findPhase [] name = None"
  by (simp add: findPhase_def)

lemma hasKeyDocs_empty: "\<not> hasKeyDocs []"
  by (simp add: hasKeyDocs_def findPhase_empty findingsInclude_def)

lemma processPhase4_nonempty: "processPhase4 p h \<noteq> []"
  by (simp add: processPhase4_def)

lemma report_nonempty: "generateComprehensiveReport today p allf h \<noteq> []"
  by (simp add: generateComprehensiveReport_def)

lemma quality_empty: "includesStr (documentationQualityLine []) ''Needs Improvement''"
  by (simp add: documentationQualityLine_def hasKeyDocs_empty)

lemma phase4_zero:
  "includesStr (processPhase4 p []) (''- **Analysis Phases Completed**: '' @ showNat 0)"
  unfolding processPhase4_def list.size(3)
  by (intro includesStr_appendI2 includesStr_prefix2)

lemma report_includes_quality_line:
  "includesStr (generateComprehensiveReport today p allf h) (documentationQualityLine h)"
  unfolding generateComprehensiveReport_def
  by (intro includesStr_appendI2 includesStr_prefix)

lemma phase4_key_line:
  assumes "a \<in> set (lastThree h)"
  shows "includesStr (processPhase4 p h) (keyFindingLine a)"
proof -
  have "includesStr (concat (map keyFindingLine (lastThree h))) (keyFindingLine a)"
    using assms by (rule includesStr_concat_map)
  then obtain u v where uv: "concat (map keyFindingLine (lastThree h)) = u @ keyFindingLine a @ v"
    by (auto simp: includesStr_iff)
  show ?thesis
    unfolding processPhase4_def uv
    by (intro includesStr_appendI2 includesStr_midchunk)
qed

lemma phase4_count: 
  "includesStr (processPhase4 p h) (''- **Analysis Phases Completed**: '' @ showNat (length h))"
  unfolding processPhase4_def
  by (intro includesStr_appendI2 includesStr_prefix2)

lemma phase4_fixed:
  "includesStr (processPhase4 p h) ''**Key Findings:**''"
  "includesStr (processPhase4 p h) ''**Recommendations for New Developers:**''"
  "includesStr (processPhase4 p h) ''- Start by reviewing the key documentation files identified''"
  "includesStr (processPhase4 p h) ''- Understand the project structure before diving into code''"
  "includesStr (processPhase4 p h) ''- Focus on entry points to understand application flow''"
  "includesStr (processPhase4 p h) ''- Pay attention to the architectural patterns in use''"
  "includesStr (processPhase4 p h) ''**Next Steps:**''"
  "includesStr (processPhase4 p h) ''- Set up development environment according to project requirements''"
  "includesStr (processPhase4 p h) ''- Run the application and explore its functionality''"
  "includesStr (processPhase4 p h) ''- Identify areas for contribution or improvement''"
  unfolding processPhase4_def
  by (intro includesStr_appendI2 includesStr_midchunk includesStr_prefixchunk includesStr_prefix)+

lemma phase4_project:
  "includesStr (processPhase4 p h) (''- **Project**: '' @ path_basename p)"
  unfolding processPhase4_def
  by (intro includesStr_appendI2 includesStr_prefix2)

lemma lastThree_min: "length (lastThree xs) = min 3 (length xs)"
  by (simp add: lastThree_def)

lemma projectTypeLine_empty:
  "projectTypeLine [] = ''**Project Type:** Multi-language or Unknown Type'' @ [CHR 0x0A]"
  by (simp add: projectTypeLine_def findPhase_empty findingsInclude_def)

lemma documentationQualityLine_empty:
  "documentationQualityLine [] =
     (''**Documentation Quality:** Needs Improvement '' @ emoji_warning) @ [CHR 0x0A]"
  by (simp add: documentationQualityLine_def hasKeyDocs_empty)

lemma report_parts:
  "includesStr (generateComprehensiveReport today p allf h) allf"
  "includesStr (generateComprehensiveReport today p allf h) (projectTypeLine h)"
  "includesStr (generateComprehensiveReport today p allf h)
     (''**Total Analysis Time:** '' @ showNat (length h) @ ('' phases completed'' @ [CHR 0x0A]))"
  unfolding generateComprehensiveReport_def
  by (intro includesStr_appendI2 includesStr_prefix includesStr_prefix3)+

lemma report_empty_type:
  "includesStr (generateComprehensiveReport today p allf [])
     ''**Project Type:** Multi-language or Unknown Type''"
  using report_parts(2) [of today p allf "[]"] unfolding projectTypeLine_empty
  by (rule includesStr_shorter)

lemma report_empty_quality:
  "includesStr (generateComprehensiveReport today p allf [])
     (''**Documentation Quality:** Needs Improvement '' @ emoji_warning)"
  using report_includes_quality_line [of today p allf "[]"] unfolding documentationQualityLine_empty
  by (rule includesStr_shorter)

lemma report_empty_time:
  "includesStr (generateComprehensiveReport today p allf [])
     ''**Total Analysis Time:** 0 phases completed''"
proof -
  have "''**Total Analysis Time:** '' @ showNat (length ([] :: CodebaseAnalysis list)) @
          ('' phases completed'' @ [CHR 0x0A]) =
        ''**Total Analysis Time:** 0 phases completed'' @ [CHR 0x0A]"
    by (simp add: showNat_0)
  with report_parts(3) [of today p allf "[]"]
  have "includesStr (generateComprehensiveReport today p allf [])
          (''**Total Analysis Time:** 0 phases completed'' @ [CHR 0x0A])"
    by simp
  then show ?thesis by (rule includesStr_shorter)
qed

lemma capitalize_conceptual: "capitalize ''conceptual'' = ''Conceptual''"
  by code_simp

text \<open>
  C9: with an empty history the Synthesis renderer and the comprehensive-report renderer
  return non-empty text, and neither has a failing outcome for any input: the Synthesis
  text reports zero completed phases, and the report embeds the phase texts it was given
  and rates the project as of unknown type, its documentation as needing improvement and
  the analysis as zero phases. On every history the Synthesis text names the project,
  gives the number of entries of the history, has one line "Completed successfully" for
  each of the last three entries (all of them when there are fewer), and carries the
  fixed recommendation and next-step lines; it depends on the history only through its
  length and the phases of those last entries.
\<close>

theorem C9_renderers_on_any_history:
  "processPhase4 p [] \<noteq> [] \<and>
   includesStr (processPhase4 p []) ''- **Analysis Phases Completed**: 0'' \<and>
   generateComprehensiveReport today p allPhaseFindings [] \<noteq> [] \<and>
   includesStr (generateComprehensiveReport today p allPhaseFindings [])
               (documentationQualityLine []) \<and>
   includesStr (documentationQualityLine []) ''Needs Improvement'' \<and>
   includesStr (generateComprehensiveReport today p allPhaseFindings []) allPhaseFindings \<and>
   includesStr (generateComprehensiveReport today p allPhaseFindings [])
               ''**Project Type:** Multi-language or Unknown Type'' \<and>
   includesStr (generateComprehensiveReport today p allPhaseFindings [])
               (''**Documentation Quality:** Needs Improvement '' @ emoji_warning) \<and>
   includesStr (generateComprehensiveReport today p allPhaseFindings [])
               ''**Total Analysis Time:** 0 phases completed'' \<and>
   includesStr (processPhase4 p h) (''- **Project**: '' @ path_basename p) \<and>
   includesStr (processPhase4 p h) (''- **Analysis Phases Completed**: '' @ showNat (length h)) \<and>
   includesStr (processPhase4 p h) ''**Key Findings:**'' \<and>
   (a \<in> set (lastThree h) \<longrightarrow>
      includesStr (processPhase4 p h)
        (''- **'' @ capitalize (ca_phase a) @ '' Phase**: Completed successfully'' @ [CHR 0x0A])) \<and>
   includesStr (processPhase4 p h) ''**Recommendations for New Developers:**'' \<and>
   includesStr (processPhase4 p h) ''- Start by reviewing the key documentation files identified'' \<and>
   includesStr (processPhase4 p h) ''- Understand the project structure before diving into code'' \<and>
   includesStr (processPhase4 p h) ''- Focus on entry points to understand application flow'' \<and>
   includesStr (processPhase4 p h) ''- Pay attention to the architectural patterns in use'' \<and>
   includesStr (processPhase4 p h) ''**Next Steps:**'' \<and>
   includesStr (processPhase4 p h)
     ''- Set up development environment according to project requirements'' \<and>
   includesStr (processPhase4 p h) ''- Run the application and explore its functionality'' \<and>
   includesStr (processPhase4 p h) ''- Identify areas for contribution or improvement'' \<and>
   lastThree h = drop (length h - 3) h \<and>
   length (lastThree h) = min 3 (length h) \<and>
   length (lastThree h) \<le> 3 \<and>
   (length h = length h' \<and> map ca_phase (lastThree h) = map ca_phase (lastThree h')
      \<longrightarrow> processPhase4 p h = processPhase4 p h')"
proof -
  have z: "includesStr (processPhase4 p []) ''- **Analysis Phases Completed**: 0''"
    using phase4_zero [of p] by (simp add: showNat_0)
  have k: "a \<in> set (lastThree h) \<longrightarrow>
      includesStr (processPhase4 p h)
        (''- **'' @ capitalize (ca_phase a) @ '' Phase**: Completed successfully'' @ [CHR 0x0A])"
    using phase4_key_line [of a h p] by (simp add: keyFindingLine_def)
  have empty:
    "processPhase4 p [] \<noteq> [] \<and>
     generateComprehensiveReport today p allPhaseFindings [] \<noteq> [] \<and>
     includesStr (generateComprehensiveReport today p allPhaseFindings [])
                 (documentationQualityLine []) \<and>
     includesStr (documentationQualityLine []) ''Needs Improvement'' \<and>
     includesStr (generateComprehensiveReport today p allPhaseFindings []) allPhaseFindings \<and>
     includesStr (generateComprehensiveReport today p allPhaseFindings [])
                 ''**Project Type:** Multi-language or Unknown Type'' \<and>
     includesStr (generateComprehensiveReport today p allPhaseFindings [])
                 (''**Documentation Quality:** Needs Improvement '' @ emoji_warning) \<and>
     includesStr (generateComprehensiveReport today p allPhaseFindings [])
                 ''**Total Analysis Time:** 0 phases completed''"
    using processPhase4_nonempty [of p "[]"] report_nonempty [of today p allPhaseFindings "[]"]
      report_includes_quality_line [of today p allPhaseFindings "[]"] quality_empty
      report_parts(1) [of today p allPhaseFindings "[]"]
      report_empty_type [of today p allPhaseFindings]
      report_empty_quality [of today p allPhaseFindings]
      report_empty_time [of today p allPhaseFindings]
    by blast
  have shape: "lastThree h = drop (length h - 3) h \<and>
     length (lastThree h) = min 3 (length h) \<and> length (lastThree h) \<le> 3"
    using lastThree_min [of h] length_lastThree [of h] by (simp add: lastThree_def)
  have dep: "length h = length h' \<and> map ca_phase (lastThree h) = map ca_phase (lastThree h')
      \<longrightarrow> processPhase4 p h = processPhase4 p h'"
    using processPhase4_reads_last_three [of h h' p] by blast
  from z k empty shape dep phase4_project [of p h] phase4_count [of p h] phase4_fixed [of p h]
  show ?thesis by blast
qed

theorem C9_renderers_on_any_history_witness:
  "historyRecord ''conceptual'' ''one'' \<in> set (lastThree history_a) \<and>
   includesStr (processPhase4 ''/proj'' history_a)
     (''- **Conceptual Phase**: Completed successfully'' @ [CHR 0x0A]) \<and>
   length history_a = length history_b \<and>
   map ca_phase (lastThree history_a) = map ca_phase (lastThree history_b) \<and>
   history_a \<noteq> history_b \<and>
   processPhase4 ''/proj'' history_a = processPhase4 ''/proj'' history_b"
proof -
  have m: "historyRecord ''conceptual'' ''one'' \<in> set (lastThree history_a)"
    by (simp add: history_a_def lastThree_def)
  have a: "length history_a = length history_b"
    by (simp add: history_a_def history_b_def)
  have b: "map ca_phase (lastThree history_a) = map ca_phase (lastThree history_b)"
    by (simp add: history_a_def history_b_def lastThree_def historyRecord_def)
  have c: "history_a \<noteq> history_b"
    by (simp add: history_a_def history_b_def historyRecord_def)
  note inst = C9_renderers_on_any_history
               [of "''/proj''" _ _ history_a "historyRecord ''conceptual'' ''one''" history_b]
  from inst a b
  have eq: "processPhase4 ''/proj'' history_a = processPhase4 ''/proj'' history_b" by blast
  from inst m
  have "includesStr (processPhase4 ''/proj'' history_a)
          (''- **'' @ capitalize (ca_phase (historyRecord ''conceptual'' ''one'')) @
           '' Phase**: Completed successfully'' @ [CHR 0x0A])"
    by blast
  then have line: "includesStr (processPhase4 ''/proj'' history_a)
     (''- **Conceptual Phase**: Completed successfully'' @ [CHR 0x0A])"
    by (simp add: historyRecord_def capitalize_conceptual)
  from m line a b c eq show ?thesis by blast
qed

section \<open>Properties of the Pipeline Orchestrator\<close>

subsection \<open>A run that finds no key document\<close>

lemma zero_docs_text_1: "includesStr (processPhase1 w p []) ''Key Documents Found:''"
  by code_simp

lemma zero_docs_text_2: "\<not> includesStr (processPhase1 w p []) ''Key Documents Found: 0''"
  by code_simp

lemma zero_docs_hasKeyDocs:
  "findPhase h ''conceptual'' = Some r \<Longrightarrow> ca_findings r = processPhase1 w p [] \<Longrightarrow> hasKeyDocs h"
  by (simp add: hasKeyDocs_def findingsInclude_def zero_docs_text_1 zero_docs_text_2)

lemma runAllPhases_complete:
  assumes "processPhase3 (env_localeString e) p (analyzeCodeFiles (env_world e) p) = Inr f3"
  shows "\<exists>r1 r2 r3 r4 rep.
           runAllPhases e p phaseOrder h [] = (None, h @ [r1, r2, r3, r4], rep) \<and>
           ca_phase r1 = ''conceptual'' \<and>
           ca_findings r1 = processPhase1 (env_world e) p (findKeyDocs (env_world e) p) \<and>
           ca_phase r2 = ''structural'' \<and> ca_phase r3 = ''analysis'' \<and> ca_phase r4 = ''synthesis''"
  using assms by (simp add: phaseOrder_def loopPhaseFindings_def)

lemma all_run_reply:
  assumes "pp \<noteq> []" and "existsPath (env_world e) pp"
    and "runAllPhases e (findRepositoryRoot (env_world e) pp) phaseOrder h [] = (None, h1, rep)"
  shows "processCodebaseAnalysis e h (Some \<lparr> in_projectPath = Some pp, in_phase = None \<rparr>) =
           (Inr \<lparr> reply = Result
                   \<lparr> pr_phase = ''comprehensive'',
                     pr_projectPath = findRepositoryRoot (env_world e) pp,
                     pr_repositoryRoot = (if findRepositoryRoot (env_world e) pp \<noteq> pp
                                          then Some (findRepositoryRoot (env_world e) pp) else None),
                     pr_providedPath = (if findRepositoryRoot (env_world e) pp \<noteq> pp
                                        then Some pp else None),
                     pr_findings = generateComprehensiveReport
                                     (hd (splitOn (CHR ''T'') (env_now e (length h1))))
                                     (findRepositoryRoot (env_world e) pp) rep h1,
                     pr_nextPhaseNeeded = False,
                     pr_analysisHistoryLength = length h1,
                     pr_suggestedNextPhase = None,
                     pr_completedPhases = Some phaseOrder \<rparr>,
                 isError = False \<rparr>, h1)"
  using assms by (simp add: processCodebaseAnalysis_def Let_def)

lemma well_documented_line:
  "hasKeyDocs h \<Longrightarrow>
   documentationQualityLine h =
     (''**Documentation Quality:** Well Documented '' @ emoji_check) @ [CHR 0x0A]"
  by (simp add: documentationQualityLine_def)

lemma findPhase_first: "ca_phase r = name \<Longrightarrow> findPhase (r # rs) name = Some r"
  by (simp add: findPhase_def)

lemma zero_docs_run:
  assumes "pp \<noteq> []" and "existsPath (env_world e) pp"
    and "findKeyDocs (env_world e) (findRepositoryRoot (env_world e) pp) = []"
    and "processPhase3 (env_localeString e) (findRepositoryRoot (env_world e) pp)
           (analyzeCodeFiles (env_world e) (findRepositoryRoot (env_world e) pp)) = Inr f3"
  shows "includesStr
           (findingsOf (fst (processCodebaseAnalysis e []
              (Some \<lparr> in_projectPath = Some pp, in_phase = None \<rparr>))))
           (''**Documentation Quality:** Well Documented '' @ emoji_check)"
proof -
  let ?p = "findRepositoryRoot (env_world e) pp"
  from runAllPhases_complete [OF assms(4), of "[]"]
  obtain r1 r2 r3 r4 rep where
    run: "runAllPhases e ?p phaseOrder [] [] = (None, [r1, r2, r3, r4], rep)"
    and r1: "ca_phase r1 = ''conceptual''"
       "ca_findings r1 = processPhase1 (env_world e) ?p (findKeyDocs (env_world e) ?p)"
    by auto
  have fp: "findPhase [r1, r2, r3, r4] ''conceptual'' = Some r1"
    using r1(1) by (rule findPhase_first)
  have "ca_findings r1 = processPhase1 (env_world e) ?p []"
    using r1(2) assms(3) by simp
  with fp have "hasKeyDocs [r1, r2, r3, r4]"
    by (rule zero_docs_hasKeyDocs)
  then have line: "documentationQualityLine [r1, r2, r3, r4] =
      (''**Documentation Quality:** Well Documented '' @ emoji_check) @ [CHR 0x0A]"
    by (rule well_documented_line)
  have "includesStr (generateComprehensiveReport
                       (hd (splitOn (CHR ''T'') (env_now e (length [r1, r2, r3, r4])))) ?p rep
                       [r1, r2, r3, r4])
          ((''**Documentation Quality:** Well Documented '' @ emoji_check) @ [CHR 0x0A])"
    using report_includes_quality_line [of _ ?p rep "[r1, r2, r3, r4]"] unfolding line .
  then have "includesStr (generateComprehensiveReport
                       (hd (splitOn (CHR ''T'') (env_now e (length [r1, r2, r3, r4])))) ?p rep
                       [r1, r2, r3, r4])
          (''**Documentation Quality:** Well Documented '' @ emoji_check)"
    by (rule includesStr_shorter)
  then show ?thesis
    unfolding all_run_reply [OF assms(1,2) run] by (simp add: findingsOf_def)
qed

lemma bare_facts:
  "existsPath world_bare ''/work/bare''"
  "findRepositoryRoot world_bare ''/work/bare'' = ''/work/bare''"
  "findKeyDocs world_bare ''/work/bare'' = []"
  "findCodeFiles world_bare ''/work/bare'' = []"
  by code_simp+

lemma analysis_without_files:
  "findCodeFiles w p = [] \<Longrightarrow> \<exists>f. processPhase3 L p (analyzeCodeFiles w p) = Inr f"
  by (simp add: analyzeCodeFiles_def processPhase3_def buildCodeStructureMap_def Let_def
        emptyAnalysis_def)

text \<open>
  C5 (the code falls short of the claim): in a project without any key document the
  conceptual findings read \<^verbatim>\<open>**Key Documents Found:** 0\<close>, with the bold markers
  between the colon and the number, so the text searched for, \<^verbatim>\<open>Key Documents Found: 0\<close>,
  does not occur in them; the comprehensive report of that run then rates the
  documentation "Well Documented".
\<close>

theorem C5_zero_documents_rated_well_documented:
  "findKeyDocs world_bare ''/work/bare'' = [] \<and>
   includesStr (processPhase1 world_bare ''/work/bare'' (findKeyDocs world_bare ''/work/bare''))
               (''**Key Documents Found:** 0'') \<and>
   \<not> includesStr (processPhase1 world_bare ''/work/bare'' (findKeyDocs world_bare ''/work/bare''))
                 ''Key Documents Found: 0'' \<and>
   includesStr
     (findingsOf (fst (processCodebaseAnalysis env_bare []
        (Some \<lparr> in_projectPath = Some ''/work/bare'', in_phase = None \<rparr>))))
     (''**Documentation Quality:** Well Documented '' @ emoji_check)"
proof -
  have w: "env_world env_bare = world_bare"
    by (simp add: env_bare_def)
  obtain f3 where f3: "processPhase3 (env_localeString env_bare) ''/work/bare''
                         (analyzeCodeFiles world_bare ''/work/bare'') = Inr f3"
    using analysis_without_files [OF bare_facts(4)] by blast
  have run: "includesStr
     (findingsOf (fst (processCodebaseAnalysis env_bare []
        (Some \<lparr> in_projectPath = Some ''/work/bare'', in_phase = None \<rparr>))))
     (''**Documentation Quality:** Well Documented '' @ emoji_check)"
    by (rule zero_docs_run) (simp_all add: w bare_facts f3)
  have shown: "includesStr (processPhase1 world_bare ''/work/bare'' []) ''**Key Documents Found:** 0''"
    by code_simp
  from run shown zero_docs_text_2 [of world_bare "''/work/bare''"] show ?thesis
    by (simp add: bare_facts)
qed

subsection \<open>Failures at the boundary\<close>

lemma invalid_path_failure:
  "in_projectPath d = None \<or> in_projectPath d = Some [] \<or>
   (\<exists>pp. in_projectPath d = Some pp \<and> \<not> existsPath (env_world e) pp)
   \<Longrightarrow>
   processCodebaseAnalysis e h (Some d) =
     (Inr (failureEnvelope (Error ''Invalid or non-existent project path'')), h)"
  by (auto simp: processCodebaseAnalysis_def Let_def split: option.splits)

lemma unknown_phase_rejected:
  assumes "pp \<noteq> []" and "existsPath (env_world e) pp"
    and "phase \<noteq> []" and "phase \<notin> set (''all'' # phaseOrder)"
  shows "processCodebaseAnalysis e h (Some \<lparr> in_projectPath = Some pp, in_phase = Some phase \<rparr>) =
           (Inl (Error (''Invalid phase: '' @ phase)), h)"
  using assms
  by (simp add: processCodebaseAnalysis_def Let_def runSinglePhase_def singlePhaseFindings_def
        phaseOrder_def)

text \<open>
  C8 (the code falls short of the claim): for a missing or nonexistent project path the
  call is fulfilled with the failure reply and the error flag, and the history is
  unchanged. For an existing path and the unrecognized phase \<^verbatim>\<open>bogus\<close> the history is
  unchanged too, but the call is not fulfilled with a reply at all: its promise is
  rejected with the error \<^verbatim>\<open>Invalid phase: bogus\<close>, because the promise of
  \<^verbatim>\<open>runSinglePhase\<close> is returned from the \<^verbatim>\<open>try\<close> block without \<^verbatim>\<open>await\<close>.
\<close>

theorem C8_unknown_phase_rejects_the_call:
  "processCodebaseAnalysis env_docs history_a
     (Some \<lparr> in_projectPath = None, in_phase = Some ''conceptual'' \<rparr>) =
     (Inr \<lparr> reply = Failed ''Invalid or non-existent project path'', isError = True \<rparr>, history_a) \<and>
   processCodebaseAnalysis env_docs history_a
     (Some \<lparr> in_projectPath = Some ''/nowhere'', in_phase = Some ''conceptual'' \<rparr>) =
     (Inr \<lparr> reply = Failed ''Invalid or non-existent project path'', isError = True \<rparr>, history_a) \<and>
   existsPath (env_world env_docs) ''/proj'' \<and>
   processCodebaseAnalysis env_docs history_a
     (Some \<lparr> in_projectPath = Some ''/proj'', in_phase = Some ''bogus'' \<rparr>) =
     (Inl (Error ''Invalid phase: bogus''), history_a)"
proof -
  have ex: "existsPath (env_world env_docs) ''/proj''"
    by code_simp
  have nex: "\<not> existsPath (env_world env_docs) ''/nowhere''"
    by code_simp
  have a: "processCodebaseAnalysis env_docs history_a
             (Some \<lparr> in_projectPath = None, in_phase = Some ''conceptual'' \<rparr>) =
           (Inr (failureEnvelope (Error ''Invalid or non-existent project path'')), history_a)"
    by (rule invalid_path_failure) simp
  have b: "processCodebaseAnalysis env_docs history_a
             (Some \<lparr> in_projectPath = Some ''/nowhere'', in_phase = Some ''conceptual'' \<rparr>) =
           (Inr (failureEnvelope (Error ''Invalid or non-existent project path'')), history_a)"
    by (rule invalid_path_failure) (simp add: nex)
  have c: "processCodebaseAnalysis env_docs history_a
             (Some \<lparr> in_projectPath = Some ''/proj'', in_phase = Some ''bogus'' \<rparr>) =
           (Inl (Error (''Invalid phase: '' @ ''bogus'')), history_a)"
    by (rule unknown_phase_rejected) (simp_all add: ex phaseOrder_def)
  from a b c ex show ?thesis
    by (simp add: failureEnvelope_def errorMessage_def)
qed

end
